theory Spec2Isabelle
  imports Complex_Main "HOL-Library.AList"
begin

section \<open>EC2 launch template sync: the data model\<close>

text \<open>
  This theory embeds \<^verbatim>\<open>cartography/intel/aws/ec2/launch_templates.py\<close>.
  The module works on plain Python dictionaries \<^verbatim>\<open>dict[str, Any]\<close>. A value held by
  such a dictionary is one of the values a boto3 response is made of. A datetime is
  represented by the number its \<^verbatim>\<open>timestamp()\<close> method returns: that number is a finite
  float, hence a rational, and the module reads nothing else from a datetime.
\<close>

datatype pyval =
    PNone
  | PBool bool
  | PInt int
  | PStr string
  | PDatetime rat
  | PList "pyval list"
  | PDict "(string \<times> pyval) list"

text \<open>
  A dictionary is an association list in insertion order. \<^verbatim>\<open>d.copy()\<close> is the list
  itself, since values of HOL are never shared.
\<close>

type_synonym dict = "(string \<times> pyval) list"

text \<open>
  The exceptions of the module: those Python raises itself, the \<^verbatim>\<open>ClientError\<close> of
  botocore with its error code, and \<open>OtherError\<close> for any other exception a
  collaborator raises.
\<close>

datatype py_error =
    KeyError string
  | AttributeError
  | TypeError
  | ClientError string
  | OtherError string

text \<open>\<^verbatim>\<open>d[k]\<close> raises \<^verbatim>\<open>KeyError\<close> on a missing key.\<close>

definition subscript :: "dict \<Rightarrow> string \<Rightarrow> py_error + pyval" where
  "subscript d k = (case map_of d k of None \<Rightarrow> Inl (KeyError k) | Some v \<Rightarrow> Inr v)"

text \<open>\<^verbatim>\<open>d.get(k)\<close> returns \<^verbatim>\<open>None\<close> on a missing key.\<close>

definition dict_get :: "dict \<Rightarrow> string \<Rightarrow> pyval" where
  "dict_get d k = (case map_of d k of None \<Rightarrow> PNone | Some v \<Rightarrow> v)"

text \<open>
  \<^verbatim>\<open>d[k] = v\<close> overwrites the value of an existing key in place and appends a new key
  at the end.
\<close>

definition setitem :: "dict \<Rightarrow> string \<Rightarrow> pyval \<Rightarrow> dict" where
  "setitem d k v = AList.update k v d"

subsection \<open>Timestamps and their decimal rendering\<close>

text \<open>
  \<^verbatim>\<open>x.timestamp()\<close> exists on datetimes only; every other value of the model raises
  \<^verbatim>\<open>AttributeError\<close>.
\<close>

fun timestamp :: "pyval \<Rightarrow> py_error + rat" where
  "timestamp (PDatetime q) = Inr q"
| "timestamp _ = Inl AttributeError"

text \<open>\<^verbatim>\<open>int(f)\<close> on a float discards the fractional part, towards zero.\<close>

definition int_of_float :: "rat \<Rightarrow> int" where
  "int_of_float q = (if 0 \<le> q then \<lfloor>q\<rfloor> else \<lceil>q\<rceil>)"

definition digit_char :: "nat \<Rightarrow> char" where
  "digit_char n = ''0123456789'' ! n"

fun str_nat :: "nat \<Rightarrow> string" where
  "str_nat n = (if n < 10 then [digit_char n] else str_nat (n div 10) @ [digit_char (n mod 10)])"

declare str_nat.simps [simp del]

text \<open>\<^verbatim>\<open>str(i)\<close> on an integer: its decimal digits, after a minus sign when negative.\<close>

definition str_int :: "int \<Rightarrow> string" where
  "str_int i = (if i < 0 then CHR ''-'' # str_nat (nat (- i)) else str_nat (nat i))"

text \<open>The expression \<^verbatim>\<open>str(int(x.timestamp()))\<close> of both transformers.\<close>

definition timestamp_str :: "pyval \<Rightarrow> py_error + pyval" where
  "timestamp_str x =
     (case timestamp x of
        Inl e \<Rightarrow> Inl e
      | Inr q \<Rightarrow> Inr (PStr (str_int (int_of_float q))))"

subsection \<open>Formatting, hashing and equality\<close>

text \<open>
  A replacement field \<^verbatim>\<open>{x}\<close> of an f-string renders \<^verbatim>\<open>x\<close> with \<^verbatim>\<open>format(x, "")\<close>.
  The renderings of \<^verbatim>\<open>None\<close>, booleans, integers and strings are written out; the
  renderings of datetimes, lists and dictionaries are left to the parameter \<open>other\<close>.
\<close>

definition py_format :: "(pyval \<Rightarrow> string) \<Rightarrow> pyval \<Rightarrow> string" where
  "py_format other x =
     (case x of
        PNone \<Rightarrow> ''None''
      | PBool b \<Rightarrow> (if b then ''True'' else ''False'')
      | PInt i \<Rightarrow> str_int i
      | PStr s \<Rightarrow> s
      | _ \<Rightarrow> other x)"

text \<open>Lists and dictionaries are unhashable: putting one into a set raises \<^verbatim>\<open>TypeError\<close>.\<close>

fun hashable :: "pyval \<Rightarrow> bool" where
  "hashable (PList _) = False"
| "hashable (PDict _) = False"
| "hashable _ = True"

text \<open>
  \<^verbatim>\<open>==\<close> on hashable values. A boolean is the integer 0 or 1, so \<^verbatim>\<open>True == 1\<close>;
  values of different kinds are otherwise unequal, and two datetimes are compared by their
  timestamps.
\<close>

fun py_eq :: "pyval \<Rightarrow> pyval \<Rightarrow> bool" where
  "py_eq (PBool a) (PInt b) = ((if a then 1 else 0) = b)"
| "py_eq (PInt a) (PBool b) = (a = (if b then 1 else 0))"
| "py_eq x y = (x = y)"

text \<open>\<^verbatim>\<open>x in s\<close> for a set \<open>s\<close>, given by the list of its members: \<open>x\<close> is hashed first.\<close>

definition py_in :: "pyval \<Rightarrow> pyval list \<Rightarrow> py_error + bool" where
  "py_in x s = (if hashable x then Inr (list_ex (py_eq x) s) else Inl TypeError)"

section \<open>The record transformers\<close>

subsection \<open>\<^verbatim>\<open>transform_launch_templates\<close>\<close>

text \<open>
  The set comprehension \<^verbatim>\<open>{v["LaunchTemplateId"] for v in versions}\<close>, evaluated over
  the versions in order.
\<close>

fun valid_template_ids :: "dict list \<Rightarrow> py_error + pyval list" where
  "valid_template_ids [] = Inr []"
| "valid_template_ids (v # vs) =
     (case subscript v ''LaunchTemplateId'' of
        Inl e \<Rightarrow> Inl e
      | Inr i \<Rightarrow>
          if \<not> hashable i then Inl TypeError
          else (case valid_template_ids vs of
                  Inl e \<Rightarrow> Inl e
                | Inr ids \<Rightarrow> Inr (i # ids)))"

text \<open>
  The loop over \<open>templates\<close>. A template whose id is not in the set is skipped before its
  \<^verbatim>\<open>CreateTime\<close> is looked at.
\<close>

fun templates_loop :: "pyval list \<Rightarrow> dict list \<Rightarrow> py_error + dict list" where
  "templates_loop ids [] = Inr []"
| "templates_loop ids (template # templates) =
     (case subscript template ''LaunchTemplateId'' of
        Inl e \<Rightarrow> Inl e
      | Inr i \<Rightarrow>
          (case py_in i ids of
             Inl e \<Rightarrow> Inl e
           | Inr False \<Rightarrow> templates_loop ids templates
           | Inr True \<Rightarrow>
               (case subscript template ''CreateTime'' of
                  Inl e \<Rightarrow> Inl e
                | Inr c \<Rightarrow>
                    (case timestamp_str c of
                       Inl e \<Rightarrow> Inl e
                     | Inr s \<Rightarrow>
                         (case templates_loop ids templates of
                            Inl e \<Rightarrow> Inl e
                          | Inr result \<Rightarrow> Inr (setitem template ''CreateTime'' s # result))))))"

definition transform_launch_templates :: "dict list \<Rightarrow> dict list \<Rightarrow> py_error + dict list" where
  "transform_launch_templates templates versions =
     (case valid_template_ids versions of
        Inl e \<Rightarrow> Inl e
      | Inr ids \<Rightarrow> templates_loop ids templates)"

subsection \<open>\<^verbatim>\<open>transform_launch_template_versions\<close>\<close>

text \<open>
  The names read with \<^verbatim>\<open>ltd.get\<close> and written to the record, in the order of the
  source.
\<close>

definition tracked_fields :: "string list" where
  "tracked_fields =
     [''KernelId'', ''EbsOptimized'', ''IamInstanceProfileArn'', ''IamInstanceProfileName'',
      ''ImageId'', ''InstanceType'', ''KeyName'', ''MonitoringEnabled'', ''RamdiskId'',
      ''DisableApiTermination'', ''InstanceInitiatedShutDownBehavior'', ''SecurityGroupIds'',
      ''SecurityGroups'']"

text \<open>The assignments \<^verbatim>\<open>current[f] = ltd.get(f)\<close>, one after the other.\<close>

fun flatten :: "dict \<Rightarrow> string list \<Rightarrow> dict \<Rightarrow> dict" where
  "flatten ltd [] current = current"
| "flatten ltd (f # fs) current = flatten ltd fs (setitem current f (dict_get ltd f))"

text \<open>
  The body of the loop, for one version. The subscripts are evaluated in the order of the
  source, and \<^verbatim>\<open>ltd.get\<close> exists on a dictionary only.
\<close>

definition transform_version :: "(pyval \<Rightarrow> string) \<Rightarrow> dict \<Rightarrow> py_error + dict" where
  "transform_version other version =
     (case subscript version ''LaunchTemplateId'' of
        Inl e \<Rightarrow> Inl e
      | Inr lt_id \<Rightarrow>
     (case subscript version ''VersionNumber'' of
        Inl e \<Rightarrow> Inl e
      | Inr number \<Rightarrow>
     (case subscript version ''CreateTime'' of
        Inl e \<Rightarrow> Inl e
      | Inr c \<Rightarrow>
     (case timestamp_str c of
        Inl e \<Rightarrow> Inl e
      | Inr s \<Rightarrow>
     (case subscript version ''LaunchTemplateData'' of
        Inl e \<Rightarrow> Inl e
      | Inr (PDict ltd) \<Rightarrow>
          Inr (flatten ltd tracked_fields
                 (setitem
                    (setitem version ''Id''
                       (PStr (py_format other lt_id @ ''-'' @ py_format other number)))
                    ''CreateTime'' s))
      | Inr _ \<Rightarrow> Inl AttributeError)))))"

fun transform_launch_template_versions ::
  "(pyval \<Rightarrow> string) \<Rightarrow> dict list \<Rightarrow> py_error + dict list" where
  "transform_launch_template_versions other [] = Inr []"
| "transform_launch_template_versions other (version # versions) =
     (case transform_version other version of
        Inl e \<Rightarrow> Inl e
      | Inr current \<Rightarrow>
          (case transform_launch_template_versions other versions of
             Inl e \<Rightarrow> Inl e
           | Inr result \<Rightarrow> Inr (current # result)))"

section \<open>Fetching, loading and cleanup\<close>

text \<open>
  The EC2 API, the graph loader and the cleanup jobs are collaborators outside this
  module. They are parameters of the model, and every call to one of them is recorded as
  an event, in the order of the calls. The fetchers talk to the API only: what they do is
  recorded in events of their own, which the orchestrator's trace embeds.
\<close>

datatype schema = LaunchTemplateSchema | LaunchTemplateVersionSchema

datatype fetch_event =
    DescribeLaunchTemplates string
  | DescribeLaunchTemplateVersions string pyval
  | LogWarningNoLongerExists pyval string
  | LogOther string

datatype event =
    Fetch fetch_event
  | LogInfoSyncing string string
  | LogInfoCleanup
  | Load schema "dict list" string string int
  | RunCleanupJob schema dict

text \<open>
  Iterating a paginator yields pages one by one and may raise after any of them: the
  outcome is the pages yielded, each given by the list under its result key, and the
  exception that ended the iteration, if any.
\<close>

type_synonym paginated = "dict list list \<times> py_error option"

text \<open>What a fetcher does: it returns a list of records or raises, and leaves events.\<close>

type_synonym fetched = "(py_error + dict list) \<times> fetch_event list"

text \<open>
  The three fetchers are decorated with \<^verbatim>\<open>aws_handle_regions\<close>, which is defined in
  \<^verbatim>\<open>cartography.util\<close> and not in this module. The decorator is a parameter: it receives
  what the decorated body did and decides what the caller gets, so it is free to turn an
  error into a return, to raise another error, to run the body again and to log. The
  answers of the API do not change during a run, so running the body again gives the same
  outcome and shows as more events. The decorator \<^verbatim>\<open>timeit\<close> only measures time and is left
  out.
\<close>

record env =
  describe_launch_templates :: "string \<Rightarrow> paginated"
  describe_launch_template_versions :: "string \<Rightarrow> pyval \<Rightarrow> paginated"
  aws_handle_regions :: "fetched \<Rightarrow> fetched"
  load :: "schema \<Rightarrow> dict list \<Rightarrow> string \<Rightarrow> string \<Rightarrow> int \<Rightarrow> py_error option"
  run_job :: "schema \<Rightarrow> dict \<Rightarrow> py_error option"

type_synonym 'a effect = "(py_error + 'a) \<times> event list"

text \<open>The body of \<^verbatim>\<open>get_launch_templates\<close>, and the decorated function the program calls.\<close>

definition get_launch_templates_body :: "env \<Rightarrow> string \<Rightarrow> fetched" where
  "get_launch_templates_body boto3_session region =
     (case describe_launch_templates boto3_session region of
        (pages, None) \<Rightarrow> (Inr (concat pages), [DescribeLaunchTemplates region])
      | (pages, Some e) \<Rightarrow> (Inl e, [DescribeLaunchTemplates region]))"

definition get_launch_templates :: "env \<Rightarrow> string \<Rightarrow> fetched" where
  "get_launch_templates boto3_session region =
     aws_handle_regions boto3_session (get_launch_templates_body boto3_session region)"

text \<open>
  The body of \<^verbatim>\<open>get_launch_template_versions_by_template\<close>. The \<^verbatim>\<open>try\<close> block encloses
  the whole loop over the pages, and \<open>template_versions\<close> is extended page by page: when
  the iteration raises, the versions of the pages already read are in the list. Only a
  \<^verbatim>\<open>ClientError\<close> is caught, and only the not-found code is tolerated; any other error
  leaves the body, towards the decorator.
\<close>

definition get_launch_template_versions_by_template_body ::
  "env \<Rightarrow> pyval \<Rightarrow> string \<Rightarrow> fetched" where
  "get_launch_template_versions_by_template_body boto3_session launch_template_id region =
     (case describe_launch_template_versions boto3_session region launch_template_id of
        (pages, None) \<Rightarrow>
          (Inr (concat pages), [DescribeLaunchTemplateVersions region launch_template_id])
      | (pages, Some (ClientError error_code)) \<Rightarrow>
          if error_code = ''InvalidLaunchTemplateId.NotFound''
          then (Inr (concat pages),
                [DescribeLaunchTemplateVersions region launch_template_id,
                 LogWarningNoLongerExists launch_template_id region])
          else (Inl (ClientError error_code),
                [DescribeLaunchTemplateVersions region launch_template_id])
      | (pages, Some e) \<Rightarrow>
          (Inl e, [DescribeLaunchTemplateVersions region launch_template_id]))"

definition get_launch_template_versions_by_template ::
  "env \<Rightarrow> pyval \<Rightarrow> string \<Rightarrow> fetched" where
  "get_launch_template_versions_by_template boto3_session launch_template_id region =
     aws_handle_regions boto3_session
       (get_launch_template_versions_by_template_body boto3_session launch_template_id region)"

text \<open>
  The body of \<^verbatim>\<open>get_launch_template_versions\<close>: the loop calls the decorated per-template
  fetch.
\<close>

fun get_launch_template_versions_body :: "env \<Rightarrow> string \<Rightarrow> dict list \<Rightarrow> fetched" where
  "get_launch_template_versions_body boto3_session region [] = (Inr [], [])"
| "get_launch_template_versions_body boto3_session region (template # launch_templates) =
     (case subscript template ''LaunchTemplateId'' of
        Inl e \<Rightarrow> (Inl e, [])
      | Inr launch_template_id \<Rightarrow>
          (case get_launch_template_versions_by_template boto3_session launch_template_id region of
             (Inl e, evs) \<Rightarrow> (Inl e, evs)
           | (Inr versions, evs) \<Rightarrow>
               (case get_launch_template_versions_body boto3_session region launch_templates of
                  (Inl e, evs') \<Rightarrow> (Inl e, evs @ evs')
                | (Inr template_versions, evs') \<Rightarrow>
                    (Inr (versions @ template_versions), evs @ evs'))))"

definition get_launch_template_versions :: "env \<Rightarrow> string \<Rightarrow> dict list \<Rightarrow> fetched" where
  "get_launch_template_versions boto3_session region launch_templates =
     aws_handle_regions boto3_session
       (get_launch_template_versions_body boto3_session region launch_templates)"

definition load_launch_templates ::
  "env \<Rightarrow> dict list \<Rightarrow> string \<Rightarrow> string \<Rightarrow> int \<Rightarrow> unit effect" where
  "load_launch_templates neo4j_session data region current_aws_account_id update_tag =
     ((case load neo4j_session LaunchTemplateSchema data region current_aws_account_id update_tag of
         None \<Rightarrow> Inr ()
       | Some e \<Rightarrow> Inl e),
      [Load LaunchTemplateSchema data region current_aws_account_id update_tag])"

definition load_launch_template_versions ::
  "env \<Rightarrow> dict list \<Rightarrow> string \<Rightarrow> string \<Rightarrow> int \<Rightarrow> unit effect" where
  "load_launch_template_versions neo4j_session data region current_aws_account_id update_tag =
     ((case load neo4j_session LaunchTemplateVersionSchema data region current_aws_account_id
              update_tag of
         None \<Rightarrow> Inr ()
       | Some e \<Rightarrow> Inl e),
      [Load LaunchTemplateVersionSchema data region current_aws_account_id update_tag])"

definition cleanup :: "env \<Rightarrow> dict \<Rightarrow> unit effect" where
  "cleanup neo4j_session common_job_parameters =
     (case run_job neo4j_session LaunchTemplateSchema common_job_parameters of
        Some e \<Rightarrow>
          (Inl e, [LogInfoCleanup, RunCleanupJob LaunchTemplateSchema common_job_parameters])
      | None \<Rightarrow>
          ((case run_job neo4j_session LaunchTemplateVersionSchema common_job_parameters of
              None \<Rightarrow> Inr ()
            | Some e \<Rightarrow> Inl e),
           [LogInfoCleanup, RunCleanupJob LaunchTemplateSchema common_job_parameters,
            RunCleanupJob LaunchTemplateVersionSchema common_job_parameters]))"

section \<open>The sync orchestrator\<close>

text \<open>One iteration of the loop over the regions.\<close>

definition sync_region ::
  "(pyval \<Rightarrow> string) \<Rightarrow> env \<Rightarrow> string \<Rightarrow> string \<Rightarrow> int \<Rightarrow> unit effect" where
  "sync_region other session region current_aws_account_id update_tag =
     (let started = [LogInfoSyncing region current_aws_account_id] in
      case get_launch_templates session region of
        (Inl e, evs1) \<Rightarrow> (Inl e, started @ map Fetch evs1)
      | (Inr templates, evs1) \<Rightarrow>
     (case get_launch_template_versions session region templates of
        (Inl e, evs2) \<Rightarrow> (Inl e, started @ map Fetch evs1 @ map Fetch evs2)
      | (Inr versions, evs2) \<Rightarrow>
     (case transform_launch_templates templates versions of
        Inl e \<Rightarrow> (Inl e, started @ map Fetch evs1 @ map Fetch evs2)
      | Inr transformed_templates \<Rightarrow>
     (case load_launch_templates session transformed_templates region current_aws_account_id
             update_tag of
        (Inl e, evs3) \<Rightarrow> (Inl e, started @ map Fetch evs1 @ map Fetch evs2 @ evs3)
      | (Inr _, evs3) \<Rightarrow>
     (case transform_launch_template_versions other versions of
        Inl e \<Rightarrow> (Inl e, started @ map Fetch evs1 @ map Fetch evs2 @ evs3)
      | Inr transformed_versions \<Rightarrow>
     (case load_launch_template_versions session transformed_versions region
             current_aws_account_id update_tag of
        (r, evs4) \<Rightarrow> (r, started @ map Fetch evs1 @ map Fetch evs2 @ evs3 @ evs4)))))))"

fun sync_regions ::
  "(pyval \<Rightarrow> string) \<Rightarrow> env \<Rightarrow> string list \<Rightarrow> string \<Rightarrow> int \<Rightarrow> unit effect" where
  "sync_regions other session [] current_aws_account_id update_tag = (Inr (), [])"
| "sync_regions other session (region # regions) current_aws_account_id update_tag =
     (case sync_region other session region current_aws_account_id update_tag of
        (Inl e, evs) \<Rightarrow> (Inl e, evs)
      | (Inr _, evs) \<Rightarrow>
          (case sync_regions other session regions current_aws_account_id update_tag of
             (r, evs') \<Rightarrow> (r, evs @ evs')))"

text \<open>
  One session stands for both \<open>neo4j_session\<close> and \<open>boto3_session\<close>: the environment
  answers for the graph and for the API.
\<close>

definition sync_ec2_launch_templates ::
  "(pyval \<Rightarrow> string) \<Rightarrow> env \<Rightarrow> string list \<Rightarrow> string \<Rightarrow> int \<Rightarrow> dict \<Rightarrow> unit effect" where
  "sync_ec2_launch_templates other session regions current_aws_account_id update_tag
       common_job_parameters =
     (case sync_regions other session regions current_aws_account_id update_tag of
        (Inl e, evs) \<Rightarrow> (Inl e, evs)
      | (Inr _, evs) \<Rightarrow>
          (case cleanup session common_job_parameters of
             (r, evs') \<Rightarrow> (r, evs @ evs')))"

section \<open>Notions of the specification\<close>

text \<open>
  A template's id occurs in the versions when some version record carries an id equal to
  it, in the sense of \<^verbatim>\<open>==\<close>.
\<close>

definition id_occurs :: "dict \<Rightarrow> dict list \<Rightarrow> bool" where
  "id_occurs template versions =
     list_ex (\<lambda>v. case (map_of template ''LaunchTemplateId'', map_of v ''LaunchTemplateId'') of
                     (Some i, Some j) \<Rightarrow> py_eq i j
                   | _ \<Rightarrow> False) versions"

section \<open>Reading a trace of events\<close>

text \<open>
  A decorator passes returns through when a body that returns is left as it is: the
  caller gets the body's list, and no event is added.
\<close>

definition passes_returns :: "(fetched \<Rightarrow> fetched) \<Rightarrow> bool" where
  "passes_returns handle = (\<forall>records evs. handle (Inr records, evs) = (Inr records, evs))"

text \<open>The events of \<^verbatim>\<open>cleanup\<close>: its log line and the runs of its jobs.\<close>

fun is_cleanup_event :: "event \<Rightarrow> bool" where
  "is_cleanup_event LogInfoCleanup = True"
| "is_cleanup_event (RunCleanupJob _ _) = True"
| "is_cleanup_event _ = False"

text \<open>The loads, by schema and region, in the order they were made.\<close>

fun loads :: "event list \<Rightarrow> (schema \<times> string) list" where
  "loads [] = []"
| "loads (Load schema data region account tag # evs) = (schema, region) # loads evs"
| "loads (_ # evs) = loads evs"


section \<open>Sample records\<close>

text \<open>A rendering of datetimes, lists and dictionaries that the samples never reach.\<close>

definition no_rendering :: "pyval \<Rightarrow> string" where
  "no_rendering x = []"

definition sample_templates :: "dict list" where
  "sample_templates =
     [[(''LaunchTemplateId'', PStr ''lt-1''), (''LaunchTemplateName'', PStr ''one''),
       (''CreateTime'', PDatetime (3400000001 / 2))],
      [(''LaunchTemplateId'', PStr ''lt-2''), (''LaunchTemplateName'', PStr ''two''),
       (''CreateTime'', PDatetime 1700000100)]]"

definition sample_version :: dict where
  "sample_version =
     [(''LaunchTemplateId'', PStr ''lt-1''), (''VersionNumber'', PInt 3),
      (''CreateTime'', PDatetime (3400000001 / 2)),
      (''LaunchTemplateData'', PDict [(''ImageId'', PStr ''ami-1'')])]"


definition sample_transformed :: "dict list" where
  "sample_transformed =
     [[(''LaunchTemplateId'', PStr ''lt-1''), (''LaunchTemplateName'', PStr ''one''),
       (''CreateTime'', PStr ''1700000000'')]]"

definition sample_data_full :: dict where
  "sample_data_full =
     [(''KernelId'', PStr ''aki-1''), (''EbsOptimized'', PBool True),
      (''IamInstanceProfileArn'', PStr ''arn:aws:iam::1:instance-profile/p''),
      (''IamInstanceProfileName'', PStr ''p''), (''ImageId'', PStr ''ami-9''),
      (''InstanceType'', PStr ''t3.micro''), (''KeyName'', PStr ''key''),
      (''MonitoringEnabled'', PBool False), (''RamdiskId'', PStr ''ari-1''),
      (''DisableApiTermination'', PBool False),
      (''InstanceInitiatedShutDownBehavior'', PStr ''stop''),
      (''SecurityGroupIds'', PList [PStr ''sg-1'']),
      (''SecurityGroups'', PList [PStr ''default''])]"

definition sample_version_full :: dict where
  "sample_version_full =
     [(''LaunchTemplateId'', PStr ''lt-9''), (''VersionNumber'', PInt 3),
      (''CreateTime'', PDatetime (3400000001 / 2)),
      (''LaunchTemplateData'', PDict sample_data_full)]"

definition sample_full_out :: dict where
  "sample_full_out =
     [(''LaunchTemplateId'', PStr ''lt-9''), (''VersionNumber'', PInt 3),
      (''CreateTime'', PStr ''1700000000''),
      (''LaunchTemplateData'', PDict sample_data_full),
      (''Id'', PStr ''lt-9-3'')] @ sample_data_full"

definition sample_version_out :: dict where
  "sample_version_out =
     [(''LaunchTemplateId'', PStr ''lt-1''), (''VersionNumber'', PInt 3),
      (''CreateTime'', PStr ''1700000000''),
      (''LaunchTemplateData'', PDict [(''ImageId'', PStr ''ami-1'')]),
      (''Id'', PStr ''lt-1-3''),
      (''KernelId'', PNone), (''EbsOptimized'', PNone), (''IamInstanceProfileArn'', PNone),
      (''IamInstanceProfileName'', PNone), (''ImageId'', PStr ''ami-1''),
      (''InstanceType'', PNone), (''KeyName'', PNone), (''MonitoringEnabled'', PNone),
      (''RamdiskId'', PNone), (''DisableApiTermination'', PNone),
      (''InstanceInitiatedShutDownBehavior'', PNone), (''SecurityGroupIds'', PNone),
      (''SecurityGroups'', PNone)]"

text \<open>A version without its nested object, and a version that already has an \<^verbatim>\<open>Id\<close>.\<close>

definition sample_version_bare :: dict where
  "sample_version_bare =
     [(''LaunchTemplateId'', PStr ''lt-9''), (''VersionNumber'', PInt 3),
      (''CreateTime'', PDatetime (3400000001 / 2))]"

definition sample_version_with_id :: dict where
  "sample_version_with_id = (''Id'', PStr ''stale'') # sample_version"

definition sample_with_id_out :: dict where
  "sample_with_id_out =
     [(''Id'', PStr ''lt-1-3''),
      (''LaunchTemplateId'', PStr ''lt-1''), (''VersionNumber'', PInt 3),
      (''CreateTime'', PStr ''1700000000''),
      (''LaunchTemplateData'', PDict [(''ImageId'', PStr ''ami-1'')]),
      (''KernelId'', PNone), (''EbsOptimized'', PNone), (''IamInstanceProfileArn'', PNone),
      (''IamInstanceProfileName'', PNone), (''ImageId'', PStr ''ami-1''),
      (''InstanceType'', PNone), (''KeyName'', PNone), (''MonitoringEnabled'', PNone),
      (''RamdiskId'', PNone), (''DisableApiTermination'', PNone),
      (''InstanceInitiatedShutDownBehavior'', PNone), (''SecurityGroupIds'', PNone),
      (''SecurityGroups'', PNone)]"

section \<open>A sample session\<close>

text \<open>
  A decorator in the manner of \<^verbatim>\<open>aws_handle_regions\<close>, as far as the samples need it: a
  body that returns is left as it is, and a body that raises a \<^verbatim>\<open>ClientError\<close> saying
  that the account may not use the service in the region is answered with a warning and
  an empty list. Any other error is let through.
\<close>

definition sample_handle_regions :: "fetched \<Rightarrow> fetched" where
  "sample_handle_regions outcome =
     (case outcome of
        (Inl (ClientError error_code), evs) \<Rightarrow>
          if error_code = ''AccessDenied'' \<or> error_code = ''UnauthorizedOperation''
          then (Inr [], evs @ [LogOther ''Skipping''])
          else (Inl (ClientError error_code), evs)
      | _ \<Rightarrow> outcome)"

text \<open>
  A session whose API lists the two sample templates in every region. The paginator of
  the versions of \<^verbatim>\<open>lt-1\<close> yields one page and then reports the template as not found;
  for \<^verbatim>\<open>lt-2\<close> the first request already does; for \<^verbatim>\<open>lt-9\<close> there are two pages; any
  other id is refused as unauthorized. Loads and cleanup jobs succeed.
\<close>

definition sample_session :: env where
  "sample_session =
     \<lparr>describe_launch_templates = (\<lambda>region. ([sample_templates], None)),
      describe_launch_template_versions =
        (\<lambda>region i.
           if i = PStr ''lt-1''
           then ([[sample_version]], Some (ClientError ''InvalidLaunchTemplateId.NotFound''))
           else if i = PStr ''lt-2''
           then ([], Some (ClientError ''InvalidLaunchTemplateId.NotFound''))
           else if i = PStr ''lt-9''
           then ([[sample_version_full], [sample_version_bare]], None)
           else ([], Some (ClientError ''UnauthorizedOperation''))),
      aws_handle_regions = sample_handle_regions,
      load = (\<lambda>schema data region account tag. None),
      run_job = (\<lambda>schema parameters. None)\<rparr>"


text \<open>
  The same session, listing a single template, \<^verbatim>\<open>lt-9\<close>, one of whose versions is bare;
  and the sample session with a graph that refuses every load.
\<close>

definition sample_template_9 :: dict where
  "sample_template_9 =
     [(''LaunchTemplateId'', PStr ''lt-9''), (''CreateTime'', PDatetime (3400000001 / 2))]"

definition sample_session_bare :: env where
  "sample_session_bare =
     sample_session\<lparr>describe_launch_templates := (\<lambda>region. ([[sample_template_9]], None))\<rparr>"

definition sample_session_no_graph :: env where
  "sample_session_no_graph =
     sample_session
       \<lparr>load := (\<lambda>schema data region account tag. Some (OtherError ''ServiceUnavailable''))\<rparr>"

section \<open>Dictionaries and conversions\<close>

lemma map_of_setitem: "map_of (setitem d k v) = (map_of d)(k \<mapsto> v)"
  by (simp add: setitem_def update_conv')

lemma keys_setitem: "fst ` set (setitem d k v) = insert k (fst ` set d)"
  by (simp add: setitem_def dom_update)

lemma map_of_flatten:
  "map_of (flatten ltd fs current) k =
     (if k \<in> set fs then Some (dict_get ltd k) else map_of current k)"
  by (induction fs arbitrary: current) (auto simp: map_of_setitem)

lemma keys_flatten: "fst ` set (flatten ltd fs current) = set fs \<union> fst ` set current"
  by (induction fs arbitrary: current) (auto simp: keys_setitem)

lemma timestamp_Inr: "timestamp x = Inr q \<longleftrightarrow> x = PDatetime q"
  by (cases x) auto

lemma timestamp_str_Inr:
  "timestamp_str x = Inr s \<longleftrightarrow> (\<exists>q. x = PDatetime q \<and> s = PStr (str_int (int_of_float q)))"
  by (cases x) (auto simp: timestamp_str_def)

section \<open>The version transformer, record by record\<close>

lemma transform_version_Inr:
  "transform_version other v = Inr r \<longleftrightarrow>
     (\<exists>a b q d. map_of v ''LaunchTemplateId'' = Some a \<and> map_of v ''VersionNumber'' = Some b \<and>
        map_of v ''CreateTime'' = Some (PDatetime q) \<and>
        map_of v ''LaunchTemplateData'' = Some (PDict d) \<and>
        r = flatten d tracked_fields
              (setitem (setitem v ''Id'' (PStr (py_format other a @ ''-'' @ py_format other b)))
                 ''CreateTime'' (PStr (str_int (int_of_float q)))))"
  unfolding transform_version_def
  by (auto simp: subscript_def timestamp_str_def timestamp_Inr
        split: sum.splits pyval.splits option.splits)

lemma versions_Inr:
  "transform_launch_template_versions other vs = Inr out \<longleftrightarrow>
     list_all2 (\<lambda>v r. transform_version other v = Inr r) vs out"
proof (induction vs arbitrary: out)
  case Nil
  then show ?case by auto
next
  case (Cons v vs)
  show ?case
    by (cases "transform_version other v"; cases "transform_launch_template_versions other vs")
       (auto simp: list_all2_Cons1 Cons.IH [symmetric])
qed

lemma versions_Inl:
  "(\<exists>e. transform_launch_template_versions other vs = Inl e) \<longleftrightarrow>
     (\<exists>v\<in>set vs. \<exists>e. transform_version other v = Inl e)"
  by (induction vs) (auto split: sum.splits)

section \<open>The template transformer\<close>

lemma valid_template_ids_Inr:
  "valid_template_ids vs = Inr ids \<longleftrightarrow>
     list_all2 (\<lambda>v i. map_of v ''LaunchTemplateId'' = Some i \<and> hashable i) vs ids"
proof (induction vs arbitrary: ids)
  case Nil
  then show ?case by auto
next
  case (Cons v vs)
  show ?case
    by (cases "valid_template_ids vs")
       (auto simp: list_all2_Cons1 subscript_def Cons.IH [symmetric] split: option.splits)
qed

lemma valid_template_ids_total:
  assumes "\<forall>v\<in>set vs. \<exists>i. map_of v ''LaunchTemplateId'' = Some i \<and> hashable i"
  shows "\<exists>ids. valid_template_ids vs = Inr ids"
  using assms by (induction vs) (auto simp: subscript_def)

lemma templates_loop_Inr:
  "templates_loop ids ts = Inr out \<Longrightarrow>
     list_all2 (\<lambda>t r. \<exists>q. map_of t ''CreateTime'' = Some (PDatetime q) \<and>
                          r = setitem t ''CreateTime'' (PStr (str_int (int_of_float q))))
       (filter (\<lambda>t. \<exists>i. map_of t ''LaunchTemplateId'' = Some i \<and> list_ex (py_eq i) ids) ts) out"
proof (induction ts arbitrary: out)
  case Nil
  then show ?case by simp
next
  case (Cons t ts)
  then show ?case
    by (auto simp: subscript_def py_in_def timestamp_str_Inr
          split: option.splits sum.splits if_splits bool.splits)
qed

lemma templates_loop_total:
  assumes "\<forall>t\<in>set ts. \<exists>i. map_of t ''LaunchTemplateId'' = Some i \<and> hashable i \<and>
             (list_ex (py_eq i) ids \<longrightarrow> (\<exists>q. map_of t ''CreateTime'' = Some (PDatetime q)))"
  shows "\<exists>out. templates_loop ids ts = Inr out"
  using assms
proof (induction ts)
  case Nil
  then show ?case by simp
next
  case (Cons t ts)
  then show ?case
    by (auto simp: subscript_def py_in_def timestamp_str_def
          split: option.splits sum.splits if_splits bool.splits)
qed

lemma id_occurs_iff:
  assumes "list_all2 (\<lambda>v i. map_of v ''LaunchTemplateId'' = Some i \<and> hashable i) vs ids"
  shows "id_occurs t vs \<longleftrightarrow>
           (\<exists>i. map_of t ''LaunchTemplateId'' = Some i \<and> list_ex (py_eq i) ids)"
  using assms
  by (induction vs ids rule: list_all2_induct) (auto simp: id_occurs_def split: option.splits)

lemma transform_launch_templates_Inr:
  assumes "transform_launch_templates ts vs = Inr out"
  shows "list_all2 (\<lambda>t r. \<exists>q. map_of t ''CreateTime'' = Some (PDatetime q) \<and>
                          r = setitem t ''CreateTime'' (PStr (str_int (int_of_float q))))
           (filter (\<lambda>t. id_occurs t vs) ts) out"
proof -
  from assms obtain ids where ids: "valid_template_ids vs = Inr ids"
    and loop: "templates_loop ids ts = Inr out"
    by (auto simp: transform_launch_templates_def split: sum.splits)
  from ids have "list_all2 (\<lambda>v i. map_of v ''LaunchTemplateId'' = Some i \<and> hashable i) vs ids"
    by (simp add: valid_template_ids_Inr)
  then have "(\<lambda>t. id_occurs t vs) =
      (\<lambda>t. \<exists>i. map_of t ''LaunchTemplateId'' = Some i \<and> list_ex (py_eq i) ids)"
    by (simp add: id_occurs_iff)
  with templates_loop_Inr [OF loop] show ?thesis by simp
qed

lemma transform_launch_templates_total:
  assumes vs: "\<forall>v\<in>set vs. \<exists>i. map_of v ''LaunchTemplateId'' = Some i \<and> hashable i"
    and ts: "\<forall>t\<in>set ts. \<exists>i. map_of t ''LaunchTemplateId'' = Some i \<and> hashable i"
    and ct: "\<forall>t\<in>set ts. id_occurs t vs \<longrightarrow> (\<exists>q. map_of t ''CreateTime'' = Some (PDatetime q))"
  shows "\<exists>out. transform_launch_templates ts vs = Inr out"
proof -
  from valid_template_ids_total [OF vs] obtain ids where ids: "valid_template_ids vs = Inr ids" ..
  then have all2: "list_all2 (\<lambda>v i. map_of v ''LaunchTemplateId'' = Some i \<and> hashable i) vs ids"
    by (simp add: valid_template_ids_Inr)
  have "\<forall>t\<in>set ts. \<exists>i. map_of t ''LaunchTemplateId'' = Some i \<and> hashable i \<and>
             (list_ex (py_eq i) ids \<longrightarrow> (\<exists>q. map_of t ''CreateTime'' = Some (PDatetime q)))"
  proof
    fix t assume t: "t \<in> set ts"
    with ts obtain i where i: "map_of t ''LaunchTemplateId'' = Some i" "hashable i" by blast
    have "list_ex (py_eq i) ids \<Longrightarrow> id_occurs t vs"
      using i by (auto simp: id_occurs_iff [OF all2])
    with ct t i show "\<exists>i. map_of t ''LaunchTemplateId'' = Some i \<and> hashable i \<and>
             (list_ex (py_eq i) ids \<longrightarrow> (\<exists>q. map_of t ''CreateTime'' = Some (PDatetime q)))"
      by blast
  qed
  from templates_loop_total [OF this] ids show ?thesis
    by (simp add: transform_launch_templates_def)
qed

text \<open>
  Claim C1. Whenever \<^verbatim>\<open>transform_launch_templates\<close> returns, its output is, record by
  record and in the order of the input, the list of the templates whose
  \<^verbatim>\<open>LaunchTemplateId\<close> occurs in at least one version: a template whose id is absent from
  the versions is dropped, a template whose id is present is emitted, and an emitted
  record agrees with its template on every key but \<^verbatim>\<open>CreateTime\<close>. It does return when
  every record carries a hashable id and every kept template a datetime.
\<close>

theorem transform_launch_templates_orphan_filter:
  "(transform_launch_templates templates versions = Inr out \<longrightarrow>
      list_all2 (\<lambda>t r. \<forall>k. k \<noteq> ''CreateTime'' \<longrightarrow> map_of r k = map_of t k)
        (filter (\<lambda>t. id_occurs t versions) templates) out) \<and>
   ((\<forall>v\<in>set versions. \<exists>i. map_of v ''LaunchTemplateId'' = Some i \<and> hashable i) \<and>
    (\<forall>t\<in>set templates. \<exists>i. map_of t ''LaunchTemplateId'' = Some i \<and> hashable i) \<and>
    (\<forall>t\<in>set templates. id_occurs t versions \<longrightarrow>
        (\<exists>q. map_of t ''CreateTime'' = Some (PDatetime q))) \<longrightarrow>
    (\<exists>result. transform_launch_templates templates versions = Inr result))"
proof (intro conjI impI)
  assume "transform_launch_templates templates versions = Inr out"
  from transform_launch_templates_Inr [OF this]
  show "list_all2 (\<lambda>t r. \<forall>k. k \<noteq> ''CreateTime'' \<longrightarrow> map_of r k = map_of t k)
        (filter (\<lambda>t. id_occurs t versions) templates) out"
    by (rule list_all2_mono) (auto simp: map_of_setitem)
next
  assume "(\<forall>v\<in>set versions. \<exists>i. map_of v ''LaunchTemplateId'' = Some i \<and> hashable i) \<and>
    (\<forall>t\<in>set templates. \<exists>i. map_of t ''LaunchTemplateId'' = Some i \<and> hashable i) \<and>
    (\<forall>t\<in>set templates. id_occurs t versions \<longrightarrow>
        (\<exists>q. map_of t ''CreateTime'' = Some (PDatetime q)))"
  then show "\<exists>result. transform_launch_templates templates versions = Inr result"
    by (intro transform_launch_templates_total) auto
qed


lemma sample_int_of_float: "int_of_float (3400000001 / 2) = 1700000000"
  by (simp add: int_of_float_def floor_eq_iff)

lemma sample_str_int: "str_int 1700000000 = ''1700000000''"
  by (simp add: str_int_def str_nat.simps digit_char_def)

lemma sample_templates_run:
  "transform_launch_templates sample_templates [sample_version] = Inr sample_transformed"
  by (simp add: transform_launch_templates_def sample_templates_def sample_version_def
        sample_transformed_def subscript_def py_in_def timestamp_str_def setitem_def
        sample_int_of_float sample_str_int)

lemma sample_templates_kept:
  "filter (\<lambda>t. id_occurs t [sample_version]) sample_templates = [hd sample_templates]"
  by (simp add: id_occurs_def sample_templates_def sample_version_def)

theorem transform_launch_templates_orphan_filter_witness:
  "transform_launch_templates sample_templates [sample_version] = Inr sample_transformed \<and>
   filter (\<lambda>t. id_occurs t [sample_version]) sample_templates = [hd sample_templates] \<and>
   list_all2 (\<lambda>t r. \<forall>k. k \<noteq> ''CreateTime'' \<longrightarrow> map_of r k = map_of t k)
     (filter (\<lambda>t. id_occurs t [sample_version]) sample_templates) sample_transformed"
  using transform_launch_templates_orphan_filter
          [of sample_templates "[sample_version]" sample_transformed]
    sample_templates_run sample_templates_kept
  by simp

lemma sample_str_int_3: "str_int 3 = ''3''"
  by (simp add: str_int_def str_nat.simps digit_char_def)

lemmas sample_unfold =
  transform_version_def subscript_def timestamp_str_def setitem_def dict_get_def
  tracked_fields_def py_format_def sample_int_of_float sample_str_int sample_str_int_3

lemma sample_full_run:
  "transform_version other sample_version_full = Inr sample_full_out"
  by (simp add: sample_unfold sample_version_full_def sample_full_out_def sample_data_full_def)

lemma sample_version_run:
  "transform_version other sample_version = Inr sample_version_out"
  by (simp add: sample_unfold sample_version_def sample_version_out_def)

lemma untracked_keys:
  "''Id'' \<notin> set tracked_fields" "''CreateTime'' \<notin> set tracked_fields"
  "''LaunchTemplateData'' \<notin> set tracked_fields" "''LaunchTemplateId'' \<notin> set tracked_fields"
  "''VersionNumber'' \<notin> set tracked_fields"
  by (simp_all add: tracked_fields_def)

lemma py_format_str_int:
  "py_format other (PStr s) = s" "py_format other (PInt n) = str_int n"
  by (simp_all add: py_format_def)

lemma int_of_float_truncates:
  "\<bar>of_int (int_of_float q)\<bar> \<le> \<bar>q\<bar> \<and> \<bar>q\<bar> < \<bar>of_int (int_of_float q)\<bar> + 1"
  unfolding int_of_float_def by (auto; linarith)

section \<open>Claims about the version transformer\<close>

text \<open>
  Claim C3. In every record returned by \<^verbatim>\<open>transform_launch_template_versions\<close>, each
  tracked field of the nested \<^verbatim>\<open>LaunchTemplateData\<close> is a top-level attribute: with the
  identical value when the nested object has the field, and with \<^verbatim>\<open>None\<close>, not a default
  such as an empty string or zero, when the nested object lacks it. The source tracks
  thirteen names, so this holds for all of them.
\<close>

theorem flattening_complete:
  assumes "transform_launch_template_versions other versions = Inr out"
  shows "list_all2
           (\<lambda>v r. \<exists>ltd. map_of v ''LaunchTemplateData'' = Some (PDict ltd) \<and>
              (\<forall>f\<in>set tracked_fields.
                 (\<forall>x. map_of ltd f = Some x \<longrightarrow> map_of r f = Some x) \<and>
                 (map_of ltd f = None \<longrightarrow> map_of r f = Some PNone)))
           versions out"
proof -
  from assms have "list_all2 (\<lambda>v r. transform_version other v = Inr r) versions out"
    by (simp add: versions_Inr)
  then show ?thesis
    by (rule list_all2_mono) (auto simp: transform_version_Inr map_of_flatten dict_get_def)
qed

text \<open>
  Claim C4. The \<^verbatim>\<open>Id\<close> of every returned record is the rendering of the version's
  \<^verbatim>\<open>LaunchTemplateId\<close>, a hyphen, and the rendering of its \<^verbatim>\<open>VersionNumber\<close>; for a
  string id and an integer number, the string followed by a hyphen and the decimal digits.
\<close>

theorem composite_id:
  assumes "transform_launch_template_versions other versions = Inr out"
  shows "list_all2
           (\<lambda>v r. \<exists>a b. map_of v ''LaunchTemplateId'' = Some a \<and>
              map_of v ''VersionNumber'' = Some b \<and>
              map_of r ''Id'' = Some (PStr (py_format other a @ ''-'' @ py_format other b)) \<and>
              (\<forall>s n. a = PStr s \<and> b = PInt n \<longrightarrow>
                 map_of r ''Id'' = Some (PStr (s @ ''-'' @ str_int n))))
           versions out"
proof -
  from assms have "list_all2 (\<lambda>v r. transform_version other v = Inr r) versions out"
    by (simp add: versions_Inr)
  then show ?thesis
    by (rule list_all2_mono)
       (auto simp: transform_version_Inr map_of_flatten map_of_setitem untracked_keys
          py_format_str_int)
qed

text \<open>
  Claim C5. Both transformers replace \<^verbatim>\<open>CreateTime\<close> by the decimal string of the
  timestamp with its fractional part discarded: the integer lies between zero and the
  timestamp, less than one away from it. The timestamp 1700000000.5 becomes
  \<^verbatim>\<open>"1700000000"\<close>.
\<close>

theorem create_time_truncated:
  "(transform_launch_templates templates versions = Inr out \<longrightarrow>
      list_all2 (\<lambda>t r. \<exists>q. map_of t ''CreateTime'' = Some (PDatetime q) \<and>
                   map_of r ''CreateTime'' = Some (PStr (str_int (int_of_float q))))
        (filter (\<lambda>t. id_occurs t versions) templates) out) \<and>
   (transform_launch_template_versions other versions = Inr out' \<longrightarrow>
      list_all2 (\<lambda>v r. \<exists>q. map_of v ''CreateTime'' = Some (PDatetime q) \<and>
                   map_of r ''CreateTime'' = Some (PStr (str_int (int_of_float q))))
        versions out') \<and>
   (\<forall>q. \<bar>of_int (int_of_float q)\<bar> \<le> \<bar>q\<bar> \<and> \<bar>q\<bar> < \<bar>of_int (int_of_float q)\<bar> + 1) \<and>
   str_int (int_of_float (3400000001 / 2)) = ''1700000000''"
proof (intro conjI impI allI)
  assume "transform_launch_templates templates versions = Inr out"
  from transform_launch_templates_Inr [OF this]
  show "list_all2 (\<lambda>t r. \<exists>q. map_of t ''CreateTime'' = Some (PDatetime q) \<and>
                   map_of r ''CreateTime'' = Some (PStr (str_int (int_of_float q))))
        (filter (\<lambda>t. id_occurs t versions) templates) out"
    by (rule list_all2_mono) (auto simp: map_of_setitem)
next
  assume "transform_launch_template_versions other versions = Inr out'"
  then have "list_all2 (\<lambda>v r. transform_version other v = Inr r) versions out'"
    by (simp add: versions_Inr)
  then show "list_all2 (\<lambda>v r. \<exists>q. map_of v ''CreateTime'' = Some (PDatetime q) \<and>
                   map_of r ''CreateTime'' = Some (PStr (str_int (int_of_float q))))
        versions out'"
    by (rule list_all2_mono)
       (auto simp: transform_version_Inr map_of_flatten map_of_setitem untracked_keys)
next
  fix q :: rat
  show "\<bar>of_int (int_of_float q)\<bar> \<le> \<bar>q\<bar>" "\<bar>q\<bar> < \<bar>of_int (int_of_float q)\<bar> + 1"
    using int_of_float_truncates [of q] by simp_all
next
  show "str_int (int_of_float (3400000001 / 2)) = ''1700000000''"
    by (simp add: sample_int_of_float sample_str_int)
qed

lemma sample_versions_run:
  "transform_launch_template_versions other [sample_version_full, sample_version] =
     Inr [sample_full_out, sample_version_out]"
  by (simp add: sample_full_run sample_version_run)

theorem flattening_complete_witness:
  "transform_launch_template_versions no_rendering [sample_version_full, sample_version] =
     Inr [sample_full_out, sample_version_out] \<and>
   map_of sample_version_full ''LaunchTemplateData'' = Some (PDict sample_data_full) \<and>
   map (map_of sample_full_out) tracked_fields = map (Some \<circ> snd) sample_data_full \<and>
   map_of sample_version_out ''ImageId'' = Some (PStr ''ami-1'') \<and>
   map_of sample_version_out ''KernelId'' = Some PNone"
proof -
  have run: "transform_launch_template_versions no_rendering [sample_version_full, sample_version] =
      Inr [sample_full_out, sample_version_out]"
    by (rule sample_versions_run)
  have full: "map_of sample_version_full ''LaunchTemplateData'' = Some (PDict sample_data_full)"
    by (simp add: sample_version_full_def)
  have part: "map_of sample_version ''LaunchTemplateData'' =
      Some (PDict [(''ImageId'', PStr ''ami-1'')])"
    by (simp add: sample_version_def)
  have present: "\<forall>f\<in>set tracked_fields. map_of sample_data_full f \<noteq> None"
    by (simp add: tracked_fields_def sample_data_full_def)
  have tracked: "''ImageId'' \<in> set tracked_fields" "''KernelId'' \<in> set tracked_fields"
    by (simp_all add: tracked_fields_def)
  from flattening_complete [OF run]
  have "\<exists>ltd. map_of sample_version_full ''LaunchTemplateData'' = Some (PDict ltd) \<and>
          (\<forall>f\<in>set tracked_fields.
             (\<forall>x. map_of ltd f = Some x \<longrightarrow> map_of sample_full_out f = Some x) \<and>
             (map_of ltd f = None \<longrightarrow> map_of sample_full_out f = Some PNone))"
    and "\<exists>ltd. map_of sample_version ''LaunchTemplateData'' = Some (PDict ltd) \<and>
          (\<forall>f\<in>set tracked_fields.
             (\<forall>x. map_of ltd f = Some x \<longrightarrow> map_of sample_version_out f = Some x) \<and>
             (map_of ltd f = None \<longrightarrow> map_of sample_version_out f = Some PNone))"
    by simp_all
  then have f: "\<forall>f\<in>set tracked_fields.
             (\<forall>x. map_of sample_data_full f = Some x \<longrightarrow> map_of sample_full_out f = Some x)"
    and p: "\<forall>f\<in>set tracked_fields.
             (\<forall>x. map_of [(''ImageId'', PStr ''ami-1'')] f = Some x \<longrightarrow>
                map_of sample_version_out f = Some x) \<and>
             (map_of [(''ImageId'', PStr ''ami-1'')] f = None \<longrightarrow>
                map_of sample_version_out f = Some PNone)"
    unfolding full part by simp_all
  from f present have "\<forall>f\<in>set tracked_fields.
      map_of sample_full_out f = map_of sample_data_full f"
    by fastforce
  then have "map (map_of sample_full_out) tracked_fields =
      map (map_of sample_data_full) tracked_fields"
    by simp
  also have "\<dots> = map (Some \<circ> snd) sample_data_full"
    by (simp add: tracked_fields_def sample_data_full_def)
  finally have "map (map_of sample_full_out) tracked_fields =
      map (Some \<circ> snd) sample_data_full" .
  moreover from p tracked(1) have "map_of sample_version_out ''ImageId'' = Some (PStr ''ami-1'')"
    by simp
  moreover from p tracked(2) have "map_of sample_version_out ''KernelId'' = Some PNone"
    by simp
  ultimately show ?thesis using run full by blast
qed

theorem composite_id_witness:
  "transform_launch_template_versions no_rendering [sample_version_full] = Inr [sample_full_out] \<and>
   map_of sample_version_full ''LaunchTemplateId'' = Some (PStr ''lt-9'') \<and>
   map_of sample_version_full ''VersionNumber'' = Some (PInt 3) \<and>
   map_of sample_full_out ''Id'' = Some (PStr ''lt-9-3'')"
proof -
  have run: "transform_launch_template_versions no_rendering [sample_version_full] =
      Inr [sample_full_out]"
    by (simp add: sample_full_run)
  have ins: "map_of sample_version_full ''LaunchTemplateId'' = Some (PStr ''lt-9'')"
    "map_of sample_version_full ''VersionNumber'' = Some (PInt 3)"
    by (simp_all add: sample_version_full_def)
  from composite_id [OF run]
  have "\<exists>a b. map_of sample_version_full ''LaunchTemplateId'' = Some a \<and>
          map_of sample_version_full ''VersionNumber'' = Some b \<and>
          map_of sample_full_out ''Id'' =
            Some (PStr (py_format no_rendering a @ ''-'' @ py_format no_rendering b)) \<and>
          (\<forall>s n. a = PStr s \<and> b = PInt n \<longrightarrow>
             map_of sample_full_out ''Id'' = Some (PStr (s @ ''-'' @ str_int n)))"
    by simp
  then have "map_of sample_full_out ''Id'' = Some (PStr (''lt-9'' @ ''-'' @ str_int 3))"
    unfolding ins by (simp add: py_format_str_int)
  then have "map_of sample_full_out ''Id'' = Some (PStr ''lt-9-3'')"
    by (simp add: sample_str_int_3)
  with run ins show ?thesis by blast
qed

theorem create_time_truncated_witness:
  "transform_launch_templates sample_templates [sample_version] = Inr sample_transformed \<and>
   transform_launch_template_versions no_rendering [sample_version] = Inr [sample_version_out] \<and>
   map_of (hd sample_templates) ''CreateTime'' = Some (PDatetime (3400000001 / 2)) \<and>
   map_of (hd sample_transformed) ''CreateTime'' = Some (PStr ''1700000000'') \<and>
   map_of sample_version ''CreateTime'' = Some (PDatetime (3400000001 / 2)) \<and>
   map_of sample_version_out ''CreateTime'' = Some (PStr ''1700000000'')"
proof -
  have run: "transform_launch_template_versions no_rendering [sample_version] =
      Inr [sample_version_out]"
    by (simp add: sample_version_run)
  have ins: "map_of (hd sample_templates) ''CreateTime'' = Some (PDatetime (3400000001 / 2))"
    "map_of sample_version ''CreateTime'' = Some (PDatetime (3400000001 / 2))"
    by (simp_all add: sample_templates_def sample_version_def)
  have shape: "sample_transformed = [hd sample_transformed]"
    by (simp add: sample_transformed_def)
  note inst = create_time_truncated
         [of sample_templates "[sample_version]" sample_transformed no_rendering
             "[sample_version_out]"]
  from inst sample_templates_run
  have "list_all2 (\<lambda>t r. \<exists>q. map_of t ''CreateTime'' = Some (PDatetime q) \<and>
                   map_of r ''CreateTime'' = Some (PStr (str_int (int_of_float q))))
        [hd sample_templates] [hd sample_transformed]"
    unfolding sample_templates_kept using shape by metis
  then obtain q where "map_of (hd sample_templates) ''CreateTime'' = Some (PDatetime q)"
    and t: "map_of (hd sample_transformed) ''CreateTime'' = Some (PStr (str_int (int_of_float q)))"
    by (simp only: list_all2_Cons list_all2_Nil) blast
  with ins(1) have "PDatetime q = PDatetime (3400000001 / 2)"
    by (simp only: option.inject)
  then have q: "q = 3400000001 / 2"
    by (simp only: pyval.inject)
  from inst run
  have "list_all2 (\<lambda>v r. \<exists>q. map_of v ''CreateTime'' = Some (PDatetime q) \<and>
                   map_of r ''CreateTime'' = Some (PStr (str_int (int_of_float q))))
        [sample_version] [sample_version_out]"
    by blast
  then obtain q' where "map_of sample_version ''CreateTime'' = Some (PDatetime q')"
    and v: "map_of sample_version_out ''CreateTime'' = Some (PStr (str_int (int_of_float q')))"
    by (simp only: list_all2_Cons list_all2_Nil) blast
  with ins(2) have "PDatetime q' = PDatetime (3400000001 / 2)"
    by (simp only: option.inject)
  then have q': "q' = 3400000001 / 2"
    by (simp only: pyval.inject)
  from inst have "str_int (int_of_float (3400000001 / 2)) = ''1700000000''"
    by blast
  with t v q q' have "map_of (hd sample_transformed) ''CreateTime'' = Some (PStr ''1700000000'')"
    and "map_of sample_version_out ''CreateTime'' = Some (PStr ''1700000000'')"
    by (simp_all only:)
  with sample_templates_run run ins show ?thesis by blast
qed

lemma transform_version_no_data:
  assumes "\<forall>d. map_of v ''LaunchTemplateData'' \<noteq> Some (PDict d)"
  shows "\<exists>e. transform_version other v = Inl e"
proof (cases "transform_version other v")
  case (Inl e)
  then show ?thesis by blast
next
  case (Inr r)
  with assms show ?thesis by (auto simp: transform_version_Inr)
qed

text \<open>
  Claim C9. Whenever \<^verbatim>\<open>transform_launch_template_versions\<close> returns, it returns one record
  per input version, the record at each position being the transformed version of that
  position, with the id and the number of that version: nothing is filtered out. It does
  return when every version has an id, a number, a datetime and a nested dictionary.
\<close>

theorem one_record_per_version:
  "(transform_launch_template_versions other versions = Inr out \<longrightarrow>
      length out = length versions \<and>
      (\<forall>i<length versions.
         transform_version other (versions ! i) = Inr (out ! i) \<and>
         map_of (out ! i) ''LaunchTemplateId'' = map_of (versions ! i) ''LaunchTemplateId'' \<and>
         map_of (out ! i) ''VersionNumber'' = map_of (versions ! i) ''VersionNumber'')) \<and>
   ((\<forall>v\<in>set versions.
       map_of v ''LaunchTemplateId'' \<noteq> None \<and> map_of v ''VersionNumber'' \<noteq> None \<and>
       (\<exists>q. map_of v ''CreateTime'' = Some (PDatetime q)) \<and>
       (\<exists>d. map_of v ''LaunchTemplateData'' = Some (PDict d))) \<longrightarrow>
    (\<exists>result. transform_launch_template_versions other versions = Inr result))"
proof (intro conjI impI)
  assume "transform_launch_template_versions other versions = Inr out"
  then have all2: "list_all2 (\<lambda>v r. transform_version other v = Inr r) versions out"
    by (simp add: versions_Inr)
  then show "length out = length versions"
    by (simp add: list_all2_lengthD)
  show "\<forall>i<length versions.
         transform_version other (versions ! i) = Inr (out ! i) \<and>
         map_of (out ! i) ''LaunchTemplateId'' = map_of (versions ! i) ''LaunchTemplateId'' \<and>
         map_of (out ! i) ''VersionNumber'' = map_of (versions ! i) ''VersionNumber''"
  proof (intro allI impI)
    fix i assume "i < length versions"
    with all2 have step: "transform_version other (versions ! i) = Inr (out ! i)"
      by (rule list_all2_nthD)
    then show "transform_version other (versions ! i) = Inr (out ! i) \<and>
         map_of (out ! i) ''LaunchTemplateId'' = map_of (versions ! i) ''LaunchTemplateId'' \<and>
         map_of (out ! i) ''VersionNumber'' = map_of (versions ! i) ''VersionNumber''"
      by (auto simp: transform_version_Inr map_of_flatten map_of_setitem untracked_keys)
  qed
next
  assume wf: "\<forall>v\<in>set versions.
       map_of v ''LaunchTemplateId'' \<noteq> None \<and> map_of v ''VersionNumber'' \<noteq> None \<and>
       (\<exists>q. map_of v ''CreateTime'' = Some (PDatetime q)) \<and>
       (\<exists>d. map_of v ''LaunchTemplateData'' = Some (PDict d))"
  have "\<not> (\<exists>e. transform_launch_template_versions other versions = Inl e)"
    unfolding versions_Inl
  proof
    assume "\<exists>v\<in>set versions. \<exists>e. transform_version other v = Inl e"
    then obtain v e where v: "v \<in> set versions" and e: "transform_version other v = Inl e"
      by blast
    from wf v obtain a b q d where "map_of v ''LaunchTemplateId'' = Some a"
      "map_of v ''VersionNumber'' = Some b" "map_of v ''CreateTime'' = Some (PDatetime q)"
      "map_of v ''LaunchTemplateData'' = Some (PDict d)"
      by fastforce
    then have "\<exists>r. transform_version other v = Inr r"
      by (simp add: transform_version_Inr)
    with e show False by simp
  qed
  then show "\<exists>result. transform_launch_template_versions other versions = Inr result"
    by (cases "transform_launch_template_versions other versions") auto
qed

theorem one_record_per_version_witness:
  "transform_launch_template_versions no_rendering [sample_version_full, sample_version] =
     Inr [sample_full_out, sample_version_out] \<and>
   length [sample_full_out, sample_version_out] = length [sample_version_full, sample_version] \<and>
   transform_version no_rendering ([sample_version_full, sample_version] ! 1) =
     Inr ([sample_full_out, sample_version_out] ! 1)"
proof -
  have run: "transform_launch_template_versions no_rendering [sample_version_full, sample_version] =
      Inr [sample_full_out, sample_version_out]"
    by (rule sample_versions_run)
  have "(1::nat) < length [sample_version_full, sample_version]"
    by simp
  with run one_record_per_version
          [of no_rendering "[sample_version_full, sample_version]"
              "[sample_full_out, sample_version_out]"]
  show ?thesis by blast
qed

lemma sample_with_id_run:
  "transform_version other sample_version_with_id = Inr sample_with_id_out"
  by (simp add: sample_unfold sample_version_with_id_def sample_version_def
        sample_with_id_out_def)

text \<open>
  Claim C10, as stated, fails: \<^verbatim>\<open>Id\<close> is neither \<^verbatim>\<open>CreateTime\<close> nor a flattened field,
  and a version that comes with an \<^verbatim>\<open>Id\<close> of its own does not keep it.
\<close>

theorem version_keys_retained_counterexample:
  "transform_launch_template_versions no_rendering [sample_version_with_id] =
     Inr [sample_with_id_out] \<and>
   map_of sample_version_with_id ''Id'' = Some (PStr ''stale'') \<and>
   ''Id'' \<noteq> ''CreateTime'' \<and> ''Id'' \<notin> set tracked_fields \<and>
   map_of sample_with_id_out ''Id'' = Some (PStr ''lt-1-3'') \<and>
   map_of sample_with_id_out ''Id'' \<noteq> map_of sample_version_with_id ''Id''"
  by (simp add: sample_with_id_run untracked_keys)
     (simp add: sample_version_with_id_def sample_with_id_out_def)

text \<open>
  Claim C10, amended. Every record returned by \<^verbatim>\<open>transform_launch_template_versions\<close>
  has every key of its input version; every key other than \<^verbatim>\<open>Id\<close>, \<^verbatim>\<open>CreateTime\<close> and
  the flattened field names keeps its value; and the nested \<^verbatim>\<open>LaunchTemplateData\<close> object
  is still there, unchanged.
\<close>

theorem version_keys_retained:
  assumes "transform_launch_template_versions other versions = Inr out"
  shows "list_all2
           (\<lambda>v r. fst ` set v \<subseteq> fst ` set r \<and>
              (\<forall>k. k \<noteq> ''Id'' \<and> k \<noteq> ''CreateTime'' \<and> k \<notin> set tracked_fields \<longrightarrow>
                 map_of r k = map_of v k) \<and>
              map_of r ''LaunchTemplateData'' = map_of v ''LaunchTemplateData'' \<and>
              map_of r ''LaunchTemplateData'' \<noteq> None)
           versions out"
proof -
  from assms have "list_all2 (\<lambda>v r. transform_version other v = Inr r) versions out"
    by (simp add: versions_Inr)
  then show ?thesis
  proof (rule list_all2_mono)
    fix v r assume "transform_version other v = Inr r"
    then obtain a b q d where d: "map_of v ''LaunchTemplateData'' = Some (PDict d)"
      and r: "r = flatten d tracked_fields
              (setitem (setitem v ''Id'' (PStr (py_format other a @ ''-'' @ py_format other b)))
                 ''CreateTime'' (PStr (str_int (int_of_float q))))"
      by (auto simp: transform_version_Inr)
    have "fst ` set v \<subseteq> fst ` set r"
      unfolding r by (auto simp: keys_flatten keys_setitem)
    moreover have "\<forall>k. k \<noteq> ''Id'' \<and> k \<noteq> ''CreateTime'' \<and> k \<notin> set tracked_fields \<longrightarrow>
                 map_of r k = map_of v k"
      unfolding r by (simp add: map_of_flatten map_of_setitem)
    moreover have "map_of r ''LaunchTemplateData'' = map_of v ''LaunchTemplateData''"
      unfolding r by (simp add: map_of_flatten map_of_setitem untracked_keys)
    ultimately show "fst ` set v \<subseteq> fst ` set r \<and>
              (\<forall>k. k \<noteq> ''Id'' \<and> k \<noteq> ''CreateTime'' \<and> k \<notin> set tracked_fields \<longrightarrow>
                 map_of r k = map_of v k) \<and>
              map_of r ''LaunchTemplateData'' = map_of v ''LaunchTemplateData'' \<and>
              map_of r ''LaunchTemplateData'' \<noteq> None"
      using d by simp
  qed
qed

theorem version_keys_retained_witness:
  "transform_launch_template_versions no_rendering [sample_version_with_id] =
     Inr [sample_with_id_out] \<and>
   fst ` set sample_version_with_id \<subseteq> fst ` set sample_with_id_out \<and>
   map_of sample_with_id_out ''VersionNumber'' = map_of sample_version_with_id ''VersionNumber'' \<and>
   map_of sample_with_id_out ''LaunchTemplateData'' =
     map_of sample_version_with_id ''LaunchTemplateData''"
proof -
  have run: "transform_launch_template_versions no_rendering [sample_version_with_id] =
     Inr [sample_with_id_out]"
    by (simp add: sample_with_id_run)
  from version_keys_retained [OF run]
  have keys: "fst ` set sample_version_with_id \<subseteq> fst ` set sample_with_id_out"
    and frame: "\<forall>k. k \<noteq> ''Id'' \<and> k \<noteq> ''CreateTime'' \<and> k \<notin> set tracked_fields \<longrightarrow>
                 map_of sample_with_id_out k = map_of sample_version_with_id k"
    and nested: "map_of sample_with_id_out ''LaunchTemplateData'' =
                 map_of sample_version_with_id ''LaunchTemplateData''"
    by simp_all
  have "''VersionNumber'' \<noteq> ''Id'' \<and> ''VersionNumber'' \<noteq> ''CreateTime'' \<and>
      ''VersionNumber'' \<notin> set tracked_fields"
    by (simp add: untracked_keys)
  with frame [rule_format, of "''VersionNumber''"]
  have "map_of sample_with_id_out ''VersionNumber'' =
      map_of sample_version_with_id ''VersionNumber''"
    by simp
  with run keys nested show ?thesis by (intro conjI)
qed

section \<open>Claims about the fetchers\<close>

lemma by_template_body_not_found:
  assumes "describe_launch_template_versions session region i =
             (pages, Some (ClientError ''InvalidLaunchTemplateId.NotFound''))"
  shows "get_launch_template_versions_by_template_body session i region =
           (Inr (concat pages),
            [DescribeLaunchTemplateVersions region i, LogWarningNoLongerExists i region])"
  using assms by (simp add: get_launch_template_versions_by_template_body_def)

lemma by_template_body_raises:
  assumes "describe_launch_template_versions session region i = (pages, Some e)"
    and "e \<noteq> ClientError ''InvalidLaunchTemplateId.NotFound''"
  shows "get_launch_template_versions_by_template_body session i region =
           (Inl e, [DescribeLaunchTemplateVersions region i])"
  using assms by (cases e) (simp_all add: get_launch_template_versions_by_template_body_def)

lemma by_template_body_returns:
  assumes "describe_launch_template_versions session region i = (pages, None)"
  shows "get_launch_template_versions_by_template_body session i region =
           (Inr (concat pages), [DescribeLaunchTemplateVersions region i])"
  using assms by (simp add: get_launch_template_versions_by_template_body_def)

lemma passes_returnsD:
  "passes_returns handle \<Longrightarrow> handle (Inr records, evs) = (Inr records, evs)"
  by (simp add: passes_returns_def)

lemma sample_passes_returns: "passes_returns sample_handle_regions"
  by (simp add: passes_returns_def sample_handle_regions_def)

lemma sample_handler:
  "aws_handle_regions sample_session = sample_handle_regions"
  "aws_handle_regions sample_session_bare = sample_handle_regions"
  "aws_handle_regions sample_session_no_graph = sample_handle_regions"
  by (simp_all add: sample_session_def sample_session_bare_def sample_session_no_graph_def)

lemma sample_skips:
  "sample_handle_regions (Inl (ClientError ''UnauthorizedOperation''), evs) =
     (Inr [], evs @ [LogOther ''Skipping''])"
  by (simp add: sample_handle_regions_def)

lemma sample_versions_api:
  "describe_launch_template_versions sample_session region (PStr ''lt-1'') =
     ([[sample_version]], Some (ClientError ''InvalidLaunchTemplateId.NotFound''))"
  "describe_launch_template_versions sample_session region (PStr ''lt-2'') =
     ([], Some (ClientError ''InvalidLaunchTemplateId.NotFound''))"
  "describe_launch_template_versions sample_session region (PStr ''lt-3'') =
     ([], Some (ClientError ''UnauthorizedOperation''))"
  "describe_launch_template_versions sample_session region (PStr ''lt-9'') =
     ([[sample_version_full], [sample_version_bare]], None)"
  by (simp_all add: sample_session_def)

lemma sample_by_template:
  "get_launch_template_versions_by_template sample_session (PStr ''lt-1'') region =
     (Inr [sample_version],
      [DescribeLaunchTemplateVersions region (PStr ''lt-1''),
       LogWarningNoLongerExists (PStr ''lt-1'') region])"
  "get_launch_template_versions_by_template sample_session (PStr ''lt-2'') region =
     (Inr [],
      [DescribeLaunchTemplateVersions region (PStr ''lt-2''),
       LogWarningNoLongerExists (PStr ''lt-2'') region])"
  "get_launch_template_versions_by_template sample_session (PStr ''lt-3'') region =
     (Inr [], [DescribeLaunchTemplateVersions region (PStr ''lt-3''), LogOther ''Skipping''])"
  "get_launch_template_versions_by_template sample_session (PStr ''lt-9'') region =
     (Inr [sample_version_full, sample_version_bare],
      [DescribeLaunchTemplateVersions region (PStr ''lt-9'')])"
  by (simp_all add: get_launch_template_versions_by_template_def sample_handler
        by_template_body_not_found [OF sample_versions_api(1)]
        by_template_body_not_found [OF sample_versions_api(2)]
        by_template_body_raises [OF sample_versions_api(3)]
        by_template_body_returns [OF sample_versions_api(4)]
        sample_skips passes_returnsD [OF sample_passes_returns])

text \<open>
  Claim C2, as stated, fails twice. The paginator can report the template as not found
  after it has yielded a page, and the versions of that page are returned, not an empty
  list. And an error with another code leaves the body towards the decorator, which may
  answer it: the sample decorator turns an unauthorized request into an empty list, so
  that nothing is raised.
\<close>

theorem not_found_tolerated_counterexample:
  "describe_launch_template_versions sample_session ''eu-west-1'' (PStr ''lt-1'') =
     ([[sample_version]], Some (ClientError ''InvalidLaunchTemplateId.NotFound'')) \<and>
   get_launch_template_versions_by_template sample_session (PStr ''lt-1'') ''eu-west-1'' =
     (Inr [sample_version],
      [DescribeLaunchTemplateVersions ''eu-west-1'' (PStr ''lt-1''),
       LogWarningNoLongerExists (PStr ''lt-1'') ''eu-west-1'']) \<and>
   [sample_version] \<noteq> [] \<and>
   describe_launch_template_versions sample_session ''eu-west-1'' (PStr ''lt-3'') =
     ([], Some (ClientError ''UnauthorizedOperation'')) \<and>
   get_launch_template_versions_by_template sample_session (PStr ''lt-3'') ''eu-west-1'' =
     (Inr [],
      [DescribeLaunchTemplateVersions ''eu-west-1'' (PStr ''lt-3''), LogOther ''Skipping''])"
  by (simp add: sample_versions_api sample_by_template)

text \<open>
  Claim C2, amended. When the iteration over the pages of the versions of a template ends
  with the not-found error code, the body of \<^verbatim>\<open>get_launch_template_versions_by_template\<close>
  does not raise: it logs one warning and returns the versions read so far, which is the
  empty list when the error comes before any version was read; a decorator that passes
  returns through hands exactly this to the caller. When the iteration ends with any
  other error, the body logs nothing and lets that error out unchanged, and what the
  caller gets is what the decorator \<^verbatim>\<open>aws_handle_regions\<close> makes of it.
\<close>

theorem not_found_tolerated:
  "describe_launch_template_versions session region i = (pages, failure) \<longrightarrow>
     (failure = Some (ClientError ''InvalidLaunchTemplateId.NotFound'') \<longrightarrow>
        get_launch_template_versions_by_template_body session i region =
          (Inr (concat pages),
           [DescribeLaunchTemplateVersions region i, LogWarningNoLongerExists i region]) \<and>
        (concat pages = [] \<longrightarrow>
           fst (get_launch_template_versions_by_template_body session i region) = Inr []) \<and>
        (passes_returns (aws_handle_regions session) \<longrightarrow>
           get_launch_template_versions_by_template session i region =
             (Inr (concat pages),
              [DescribeLaunchTemplateVersions region i, LogWarningNoLongerExists i region]))) \<and>
     (\<forall>e. failure = Some e \<and> e \<noteq> ClientError ''InvalidLaunchTemplateId.NotFound'' \<longrightarrow>
        get_launch_template_versions_by_template_body session i region =
          (Inl e, [DescribeLaunchTemplateVersions region i]) \<and>
        get_launch_template_versions_by_template session i region =
          aws_handle_regions session (Inl e, [DescribeLaunchTemplateVersions region i]))"
proof (intro impI conjI allI)
  assume api: "describe_launch_template_versions session region i = (pages, failure)"
    and nf: "failure = Some (ClientError ''InvalidLaunchTemplateId.NotFound'')"
  from api nf show body: "get_launch_template_versions_by_template_body session i region =
          (Inr (concat pages),
           [DescribeLaunchTemplateVersions region i, LogWarningNoLongerExists i region])"
    by (simp add: by_template_body_not_found)
  { assume "concat pages = []"
    with body show "fst (get_launch_template_versions_by_template_body session i region) = Inr []"
      by simp }
  { assume "passes_returns (aws_handle_regions session)"
    with body show "get_launch_template_versions_by_template session i region =
             (Inr (concat pages),
              [DescribeLaunchTemplateVersions region i, LogWarningNoLongerExists i region])"
      by (simp add: get_launch_template_versions_by_template_def passes_returnsD) }
next
  fix e
  assume api: "describe_launch_template_versions session region i = (pages, failure)"
    and other: "failure = Some e \<and> e \<noteq> ClientError ''InvalidLaunchTemplateId.NotFound''"
  then show body: "get_launch_template_versions_by_template_body session i region =
          (Inl e, [DescribeLaunchTemplateVersions region i])"
    by (simp add: by_template_body_raises)
  then show "get_launch_template_versions_by_template session i region =
          aws_handle_regions session (Inl e, [DescribeLaunchTemplateVersions region i])"
    by (simp add: get_launch_template_versions_by_template_def)
qed

theorem not_found_tolerated_witness:
  "describe_launch_template_versions sample_session ''eu-west-1'' (PStr ''lt-2'') =
     ([], Some (ClientError ''InvalidLaunchTemplateId.NotFound'')) \<and>
   passes_returns (aws_handle_regions sample_session) \<and>
   get_launch_template_versions_by_template sample_session (PStr ''lt-2'') ''eu-west-1'' =
     (Inr [],
      [DescribeLaunchTemplateVersions ''eu-west-1'' (PStr ''lt-2''),
       LogWarningNoLongerExists (PStr ''lt-2'') ''eu-west-1'']) \<and>
   describe_launch_template_versions sample_session ''eu-west-1'' (PStr ''lt-3'') =
     ([], Some (ClientError ''UnauthorizedOperation'')) \<and>
   get_launch_template_versions_by_template_body sample_session (PStr ''lt-3'') ''eu-west-1'' =
     (Inl (ClientError ''UnauthorizedOperation''),
      [DescribeLaunchTemplateVersions ''eu-west-1'' (PStr ''lt-3'')]) \<and>
   get_launch_template_versions_by_template sample_session (PStr ''lt-3'') ''eu-west-1'' =
     aws_handle_regions sample_session
       (Inl (ClientError ''UnauthorizedOperation''),
        [DescribeLaunchTemplateVersions ''eu-west-1'' (PStr ''lt-3'')])"
proof -
  have passes: "passes_returns (aws_handle_regions sample_session)"
    by (simp add: sample_handler sample_passes_returns)
  have other: "ClientError ''UnauthorizedOperation'' \<noteq>
      ClientError ''InvalidLaunchTemplateId.NotFound''"
    by simp
  note gone = not_found_tolerated
         [of sample_session "''eu-west-1''" "PStr ''lt-2''" "[]"
             "Some (ClientError ''InvalidLaunchTemplateId.NotFound'')"]
  note refused = not_found_tolerated
         [of sample_session "''eu-west-1''" "PStr ''lt-3''" "[]"
             "Some (ClientError ''UnauthorizedOperation'')"]
  from gone passes sample_versions_api(2) [of "''eu-west-1''"]
  have "get_launch_template_versions_by_template sample_session (PStr ''lt-2'') ''eu-west-1'' =
     (Inr [],
      [DescribeLaunchTemplateVersions ''eu-west-1'' (PStr ''lt-2''),
       LogWarningNoLongerExists (PStr ''lt-2'') ''eu-west-1''])"
    by simp
  moreover from refused other sample_versions_api(3) [of "''eu-west-1''"]
  have "get_launch_template_versions_by_template_body sample_session (PStr ''lt-3'')
          ''eu-west-1'' =
     (Inl (ClientError ''UnauthorizedOperation''),
      [DescribeLaunchTemplateVersions ''eu-west-1'' (PStr ''lt-3'')])"
    and "get_launch_template_versions_by_template sample_session (PStr ''lt-3'') ''eu-west-1'' =
     aws_handle_regions sample_session
       (Inl (ClientError ''UnauthorizedOperation''),
        [DescribeLaunchTemplateVersions ''eu-west-1'' (PStr ''lt-3'')])"
    by simp_all
  ultimately show ?thesis
    using passes sample_versions_api(2,3) [of "''eu-west-1''"] by (intro conjI)
qed

lemma get_launch_template_versions_body_Inr:
  assumes "get_launch_template_versions_body session region templates = (Inr versions, evs)"
  shows "(\<exists>per_template.
            list_all2
              (\<lambda>t vs. \<exists>i. map_of t ''LaunchTemplateId'' = Some i \<and>
                 fst (get_launch_template_versions_by_template session i region) = Inr vs)
              templates per_template \<and>
            versions = concat per_template) \<and>
         evs = concat (map (\<lambda>t. snd (get_launch_template_versions_by_template session
                                        (the (map_of t ''LaunchTemplateId'')) region))
                         templates)"
  using assms
proof (induction templates arbitrary: versions evs)
  case Nil
  then show ?case by simp
next
  case (Cons t ts)
  from Cons.prems obtain i vs evs1 rest evs2
    where i: "map_of t ''LaunchTemplateId'' = Some i"
      and one: "get_launch_template_versions_by_template session i region = (Inr vs, evs1)"
      and more: "get_launch_template_versions_body session region ts = (Inr rest, evs2)"
      and versions: "versions = vs @ rest" and evs: "evs = evs1 @ evs2"
    by (auto simp: subscript_def split: option.splits sum.splits prod.splits)
  from Cons.IH [OF more] obtain per
    where per: "list_all2
              (\<lambda>t vs. \<exists>i. map_of t ''LaunchTemplateId'' = Some i \<and>
                 fst (get_launch_template_versions_by_template session i region) = Inr vs)
              ts per" "rest = concat per"
      and trace: "evs2 = concat (map (\<lambda>t. snd (get_launch_template_versions_by_template session
                                        (the (map_of t ''LaunchTemplateId'')) region)) ts)"
    by blast
  have "evs = concat (map (\<lambda>t. snd (get_launch_template_versions_by_template session
                                        (the (map_of t ''LaunchTemplateId'')) region)) (t # ts))"
    using evs trace i one by simp
  moreover have "list_all2
              (\<lambda>t vs. \<exists>i. map_of t ''LaunchTemplateId'' = Some i \<and>
                 fst (get_launch_template_versions_by_template session i region) = Inr vs)
              (t # ts) (vs # per)"
    using per(1) i one by simp
  moreover have "versions = concat (vs # per)"
    using versions per(2) by simp
  ultimately show ?case by blast
qed

lemma get_launch_template_versions_body_total:
  assumes "\<forall>t\<in>set templates. \<exists>i vs. map_of t ''LaunchTemplateId'' = Some i \<and>
             fst (get_launch_template_versions_by_template session i region) = Inr vs"
  shows "\<exists>versions evs.
           get_launch_template_versions_body session region templates = (Inr versions, evs)"
  using assms
proof (induction templates)
  case Nil
  then show ?case by simp
next
  case (Cons t ts)
  then obtain i vs where i: "map_of t ''LaunchTemplateId'' = Some i"
    and "fst (get_launch_template_versions_by_template session i region) = Inr vs"
    by auto
  then obtain evs1
    where one: "get_launch_template_versions_by_template session i region = (Inr vs, evs1)"
    by (cases "get_launch_template_versions_by_template session i region") auto
  from Cons obtain rest evs2
    where "get_launch_template_versions_body session region ts = (Inr rest, evs2)"
    by auto
  with i one show ?case by (simp add: subscript_def)
qed

text \<open>
  Claim C8. When the loop of \<^verbatim>\<open>get_launch_template_versions\<close> comes to its end, its trace
  is the trace of one call of the per-template fetch for each template of the list, in
  the order of the list, and its result is the concatenation, in that order, of what these
  calls returned: the versions of one template stay together and in their own order. The
  loop comes to its end whenever every template has an id and every per-template fetch
  returns. The per-template fetch is the decorated one, and a decorator that passes
  returns through hands the result of the loop to the caller.
\<close>

theorem versions_concatenated:
  "(get_launch_template_versions_body session region templates = (Inr versions, evs) \<longrightarrow>
      (\<exists>per_template.
         list_all2
           (\<lambda>t vs. \<exists>i. map_of t ''LaunchTemplateId'' = Some i \<and>
              fst (get_launch_template_versions_by_template session i region) = Inr vs)
           templates per_template \<and>
         versions = concat per_template) \<and>
      evs = concat (map (\<lambda>t. snd (get_launch_template_versions_by_template session
                                     (the (map_of t ''LaunchTemplateId'')) region))
                      templates) \<and>
      (passes_returns (aws_handle_regions session) \<longrightarrow>
         get_launch_template_versions session region templates = (Inr versions, evs))) \<and>
   ((\<forall>t\<in>set templates. \<exists>i vs. map_of t ''LaunchTemplateId'' = Some i \<and>
        fst (get_launch_template_versions_by_template session i region) = Inr vs) \<longrightarrow>
    (\<exists>result trace.
       get_launch_template_versions_body session region templates = (Inr result, trace) \<and>
       (passes_returns (aws_handle_regions session) \<longrightarrow>
          get_launch_template_versions session region templates = (Inr result, trace))))"
proof (intro conjI impI)
  assume body: "get_launch_template_versions_body session region templates = (Inr versions, evs)"
  from get_launch_template_versions_body_Inr [OF body]
  show "\<exists>per_template.
         list_all2
           (\<lambda>t vs. \<exists>i. map_of t ''LaunchTemplateId'' = Some i \<and>
              fst (get_launch_template_versions_by_template session i region) = Inr vs)
           templates per_template \<and>
         versions = concat per_template"
    and "evs = concat (map (\<lambda>t. snd (get_launch_template_versions_by_template session
                                     (the (map_of t ''LaunchTemplateId'')) region))
                      templates)"
    by blast+
  { assume "passes_returns (aws_handle_regions session)"
    with body show "get_launch_template_versions session region templates = (Inr versions, evs)"
      by (simp add: get_launch_template_versions_def passes_returnsD) }
next
  assume "\<forall>t\<in>set templates. \<exists>i vs. map_of t ''LaunchTemplateId'' = Some i \<and>
        fst (get_launch_template_versions_by_template session i region) = Inr vs"
  from get_launch_template_versions_body_total [OF this] obtain result trace
    where body: "get_launch_template_versions_body session region templates = (Inr result, trace)"
    by blast
  then have "passes_returns (aws_handle_regions session) \<longrightarrow>
          get_launch_template_versions session region templates = (Inr result, trace)"
    by (simp add: get_launch_template_versions_def passes_returnsD)
  with body show "\<exists>result trace.
       get_launch_template_versions_body session region templates = (Inr result, trace) \<and>
       (passes_returns (aws_handle_regions session) \<longrightarrow>
          get_launch_template_versions session region templates = (Inr result, trace))"
    by blast
qed

lemma sample_fetch_body:
  "get_launch_template_versions_body sample_session region
     ([(''LaunchTemplateId'', PStr ''lt-3'')] # [(''LaunchTemplateId'', PStr ''lt-9'')] #
      sample_templates) =
   (Inr [sample_version_full, sample_version_bare, sample_version],
    [DescribeLaunchTemplateVersions region (PStr ''lt-3''), LogOther ''Skipping'',
     DescribeLaunchTemplateVersions region (PStr ''lt-9''),
     DescribeLaunchTemplateVersions region (PStr ''lt-1''),
     LogWarningNoLongerExists (PStr ''lt-1'') region,
     DescribeLaunchTemplateVersions region (PStr ''lt-2''),
     LogWarningNoLongerExists (PStr ''lt-2'') region])"
  by (simp add: sample_templates_def subscript_def sample_by_template)

theorem versions_concatenated_witness:
  "get_launch_template_versions_body sample_session ''eu-west-1''
     ([(''LaunchTemplateId'', PStr ''lt-3'')] # [(''LaunchTemplateId'', PStr ''lt-9'')] #
      sample_templates) =
   (Inr [sample_version_full, sample_version_bare, sample_version],
    [DescribeLaunchTemplateVersions ''eu-west-1'' (PStr ''lt-3''), LogOther ''Skipping'',
     DescribeLaunchTemplateVersions ''eu-west-1'' (PStr ''lt-9''),
     DescribeLaunchTemplateVersions ''eu-west-1'' (PStr ''lt-1''),
     LogWarningNoLongerExists (PStr ''lt-1'') ''eu-west-1'',
     DescribeLaunchTemplateVersions ''eu-west-1'' (PStr ''lt-2''),
     LogWarningNoLongerExists (PStr ''lt-2'') ''eu-west-1'']) \<and>
   passes_returns (aws_handle_regions sample_session) \<and>
   get_launch_template_versions sample_session ''eu-west-1''
     ([(''LaunchTemplateId'', PStr ''lt-3'')] # [(''LaunchTemplateId'', PStr ''lt-9'')] #
      sample_templates) =
   (Inr [sample_version_full, sample_version_bare, sample_version],
    [DescribeLaunchTemplateVersions ''eu-west-1'' (PStr ''lt-3''), LogOther ''Skipping'',
     DescribeLaunchTemplateVersions ''eu-west-1'' (PStr ''lt-9''),
     DescribeLaunchTemplateVersions ''eu-west-1'' (PStr ''lt-1''),
     LogWarningNoLongerExists (PStr ''lt-1'') ''eu-west-1'',
     DescribeLaunchTemplateVersions ''eu-west-1'' (PStr ''lt-2''),
     LogWarningNoLongerExists (PStr ''lt-2'') ''eu-west-1'']) \<and>
   [sample_version_full, sample_version_bare, sample_version] =
     concat [[], [sample_version_full, sample_version_bare], [sample_version], []]"
proof -
  have passes: "passes_returns (aws_handle_regions sample_session)"
    by (simp add: sample_handler sample_passes_returns)
  note body = sample_fetch_body [of "''eu-west-1''"]
  from versions_concatenated
         [of sample_session "''eu-west-1''"
             "[(''LaunchTemplateId'', PStr ''lt-3'')] # [(''LaunchTemplateId'', PStr ''lt-9'')] #
              sample_templates"
             "[sample_version_full, sample_version_bare, sample_version]"
             "[DescribeLaunchTemplateVersions ''eu-west-1'' (PStr ''lt-3''), LogOther ''Skipping'',
               DescribeLaunchTemplateVersions ''eu-west-1'' (PStr ''lt-9''),
               DescribeLaunchTemplateVersions ''eu-west-1'' (PStr ''lt-1''),
               LogWarningNoLongerExists (PStr ''lt-1'') ''eu-west-1'',
               DescribeLaunchTemplateVersions ''eu-west-1'' (PStr ''lt-2''),
               LogWarningNoLongerExists (PStr ''lt-2'') ''eu-west-1'']"] body passes
  have "get_launch_template_versions sample_session ''eu-west-1''
     ([(''LaunchTemplateId'', PStr ''lt-3'')] # [(''LaunchTemplateId'', PStr ''lt-9'')] #
      sample_templates) =
   (Inr [sample_version_full, sample_version_bare, sample_version],
    [DescribeLaunchTemplateVersions ''eu-west-1'' (PStr ''lt-3''), LogOther ''Skipping'',
     DescribeLaunchTemplateVersions ''eu-west-1'' (PStr ''lt-9''),
     DescribeLaunchTemplateVersions ''eu-west-1'' (PStr ''lt-1''),
     LogWarningNoLongerExists (PStr ''lt-1'') ''eu-west-1'',
     DescribeLaunchTemplateVersions ''eu-west-1'' (PStr ''lt-2''),
     LogWarningNoLongerExists (PStr ''lt-2'') ''eu-west-1''])"
    by blast
  moreover have "[sample_version_full, sample_version_bare, sample_version] =
     concat [[], [sample_version_full, sample_version_bare], [sample_version], []]"
    by simp
  ultimately show ?thesis using body passes by (intro conjI)
qed

section \<open>Claims about the orchestrator\<close>

lemma loads_append: "loads (evs @ evs') = loads evs @ loads evs'"
  by (induction evs rule: loads.induct) simp_all

lemma fetch_events:
  "\<forall>ev\<in>set (map Fetch evs). \<not> is_cleanup_event ev" "loads (map Fetch evs) = []"
  by (induction evs) simp_all

lemma sync_region_events:
  assumes "sync_region other session region account tag = (r, evs)"
  shows "(\<forall>ev\<in>set evs. \<not> is_cleanup_event ev) \<and>
         (r = Inr () \<longrightarrow>
            loads evs = [(LaunchTemplateSchema, region), (LaunchTemplateVersionSchema, region)])"
proof -
  obtain r1 evs1 where t: "get_launch_templates session region = (r1, evs1)"
    by (cases "get_launch_templates session region")
  note evs1 = fetch_events [of evs1]
  show ?thesis
  proof (cases r1)
    case (Inl e)
    with assms t evs1 show ?thesis by (auto simp: sync_region_def)
  next
    case templates: (Inr templates)
    obtain r2 evs2 where v: "get_launch_template_versions session region templates = (r2, evs2)"
      by (cases "get_launch_template_versions session region templates")
    note evs2 = fetch_events [of evs2]
    show ?thesis
    proof (cases r2)
      case (Inl e)
      with assms t templates v evs1 evs2 show ?thesis
        by (auto simp: sync_region_def)
    next
      case versions: (Inr versions)
      show ?thesis
      proof (cases "transform_launch_templates templates versions")
        case (Inl e)
        with assms t templates v versions evs1 evs2 show ?thesis
          by (auto simp: sync_region_def)
      next
        case transformed: (Inr transformed_templates)
        show ?thesis
        proof (cases "load session LaunchTemplateSchema transformed_templates region account tag")
          case (Some e)
          with assms t templates v versions transformed evs1 evs2 show ?thesis
            by (auto simp: sync_region_def load_launch_templates_def)
        next
          case loaded: None
          show ?thesis
          proof (cases "transform_launch_template_versions other versions")
            case (Inl e)
            with assms t templates v versions transformed loaded evs1 evs2 show ?thesis
              by (auto simp: sync_region_def load_launch_templates_def loads_append)
          next
            case (Inr transformed_versions)
            with assms t templates v versions transformed loaded evs1 evs2 show ?thesis
              by (auto simp: sync_region_def load_launch_templates_def
                    load_launch_template_versions_def loads_append)
          qed
        qed
      qed
    qed
  qed
qed

lemma sync_regions_events:
  assumes "sync_regions other session regions account tag = (r, evs)"
  shows "(\<forall>ev\<in>set evs. \<not> is_cleanup_event ev) \<and>
         (r = Inr () \<longrightarrow>
            loads evs =
              concat (map (\<lambda>region. [(LaunchTemplateSchema, region),
                                       (LaunchTemplateVersionSchema, region)]) regions))"
  using assms
proof (induction regions arbitrary: r evs)
  case Nil
  then show ?case by simp
next
  case (Cons region regions)
  obtain r1 evs1 where one: "sync_region other session region account tag = (r1, evs1)"
    by (cases "sync_region other session region account tag")
  note first = sync_region_events [OF one]
  show ?case
  proof (cases r1)
    case (Inl e)
    with Cons.prems one first show ?thesis by auto
  next
    case (Inr u)
    obtain r2 evs2 where more: "sync_regions other session regions account tag = (r2, evs2)"
      by (cases "sync_regions other session regions account tag")
    note rest = Cons.IH [OF more]
    from Cons.prems one Inr more have "r = r2" "evs = evs1 @ evs2"
      by simp_all
    with first rest Inr show ?thesis
      by (auto simp: loads_append)
  qed
qed













section \<open>A missing nested object, end to end\<close>

lemma sync_region_raises:
  assumes "get_launch_templates session region = (Inr templates, evs1)"
    and "get_launch_template_versions session region templates = (Inr versions, evs2)"
    and "transform_launch_template_versions other versions = Inl e"
  shows "\<exists>e' evs. sync_region other session region account tag = (Inl e', evs)"
proof (cases "transform_launch_templates templates versions")
  case (Inl e')
  with assms show ?thesis by (simp add: sync_region_def)
next
  case (Inr transformed_templates)
  with assms show ?thesis
    by (cases "load session LaunchTemplateSchema transformed_templates region account tag")
       (simp_all add: sync_region_def load_launch_templates_def)
qed

lemma sync_regions_raises:
  assumes "region \<in> set regions"
    and "\<exists>e evs. sync_region other session region account tag = (Inl e, evs)"
  shows "\<exists>e evs. sync_regions other session regions account tag = (Inl e, evs)"
  using assms(1)
proof (induction regions)
  case Nil
  then show ?case by simp
next
  case (Cons first regions)
  obtain r1 evs1 where one: "sync_region other session first account tag = (r1, evs1)"
    by (cases "sync_region other session first account tag")
  show ?case
  proof (cases r1)
    case (Inl e)
    with one show ?thesis by simp
  next
    case (Inr u)
    with one assms(2) have "region \<noteq> first" by auto
    with Cons obtain e evs where "sync_regions other session regions account tag = (Inl e, evs)"
      by auto
    with one Inr show ?thesis by simp
  qed
qed

text \<open>
  Claim C7. A version without a \<^verbatim>\<open>LaunchTemplateData\<close> dictionary, whether the key is
  missing or holds something else, makes \<^verbatim>\<open>transform_launch_template_versions\<close> raise
  whatever the other versions are: no record is produced and no field is defaulted. When
  the key alone is missing from a single version, the error is the \<^verbatim>\<open>KeyError\<close> of that
  key. Nothing catches the error: a run of \<^verbatim>\<open>sync_ec2_launch_templates\<close> in which a region
  of the list fetches such a version raises, and never starts the cleanup.
\<close>

theorem missing_launch_template_data_raises:
  "(v \<in> set versions \<and> (\<forall>d. map_of v ''LaunchTemplateData'' \<noteq> Some (PDict d)) \<longrightarrow>
      (\<exists>e. transform_launch_template_versions other versions = Inl e)) \<and>
   (map_of v ''LaunchTemplateId'' \<noteq> None \<and> map_of v ''VersionNumber'' \<noteq> None \<and>
    (\<exists>q. map_of v ''CreateTime'' = Some (PDatetime q)) \<and>
    map_of v ''LaunchTemplateData'' = None \<longrightarrow>
      transform_launch_template_versions other [v] = Inl (KeyError ''LaunchTemplateData'')) \<and>
   (region \<in> set regions \<and>
    get_launch_templates session region = (Inr templates, evs1) \<and>
    get_launch_template_versions session region templates = (Inr versions, evs2) \<and>
    v \<in> set versions \<and> (\<forall>d. map_of v ''LaunchTemplateData'' \<noteq> Some (PDict d)) \<longrightarrow>
      (\<exists>e evs.
         sync_ec2_launch_templates other session regions account tag parameters = (Inl e, evs) \<and>
         filter is_cleanup_event evs = []))"
proof (intro conjI impI)
  assume "v \<in> set versions \<and> (\<forall>d. map_of v ''LaunchTemplateData'' \<noteq> Some (PDict d))"
  then have "\<exists>v\<in>set versions. \<exists>e. transform_version other v = Inl e"
    using transform_version_no_data by blast
  then show "\<exists>e. transform_launch_template_versions other versions = Inl e"
    by (simp add: versions_Inl)
next
  assume "map_of v ''LaunchTemplateId'' \<noteq> None \<and> map_of v ''VersionNumber'' \<noteq> None \<and>
    (\<exists>q. map_of v ''CreateTime'' = Some (PDatetime q)) \<and>
    map_of v ''LaunchTemplateData'' = None"
  then have "transform_version other v = Inl (KeyError ''LaunchTemplateData'')"
    by (auto simp: transform_version_def subscript_def timestamp_str_def)
  then show "transform_launch_template_versions other [v] = Inl (KeyError ''LaunchTemplateData'')"
    by simp
next
  assume a: "region \<in> set regions \<and>
    get_launch_templates session region = (Inr templates, evs1) \<and>
    get_launch_template_versions session region templates = (Inr versions, evs2) \<and>
    v \<in> set versions \<and> (\<forall>d. map_of v ''LaunchTemplateData'' \<noteq> Some (PDict d))"
  then have "\<exists>v\<in>set versions. \<exists>e. transform_version other v = Inl e"
    using transform_version_no_data by blast
  then obtain e where e: "transform_launch_template_versions other versions = Inl e"
    using versions_Inl [of other versions] by blast
  from a have fetched: "get_launch_templates session region = (Inr templates, evs1)"
    "get_launch_template_versions session region templates = (Inr versions, evs2)"
    by simp_all
  have "\<exists>e evs. sync_region other session region account tag = (Inl e, evs)"
    by (rule sync_region_raises [OF fetched e])
  with a obtain e' evs where regs: "sync_regions other session regions account tag = (Inl e', evs)"
    using sync_regions_raises [of region regions other session account tag] by blast
  then have run: "sync_ec2_launch_templates other session regions account tag parameters =
      (Inl e', evs)"
    by (simp add: sync_ec2_launch_templates_def)
  from sync_regions_events [OF regs] have "filter is_cleanup_event evs = []"
    by (simp add: filter_empty_conv)
  with run show "\<exists>e evs.
         sync_ec2_launch_templates other session regions account tag parameters = (Inl e, evs) \<and>
         filter is_cleanup_event evs = []"
    by blast
qed

lemma sample_bare_fetch:
  "get_launch_templates sample_session_bare region =
     (Inr [sample_template_9], [DescribeLaunchTemplates region])"
  "get_launch_template_versions sample_session_bare region [sample_template_9] =
     (Inr [sample_version_full, sample_version_bare],
      [DescribeLaunchTemplateVersions region (PStr ''lt-9'')])"
  by (simp_all add: get_launch_templates_def get_launch_templates_body_def
        get_launch_template_versions_def get_launch_template_versions_by_template_def
        get_launch_template_versions_by_template_body_def
        sample_session_bare_def sample_session_def sample_handle_regions_def
        sample_template_9_def subscript_def)

lemma sample_bare_templates:
  "transform_launch_templates [sample_template_9] [sample_version_full, sample_version_bare] =
     Inr [[(''LaunchTemplateId'', PStr ''lt-9''), (''CreateTime'', PStr ''1700000000'')]]"
  by (simp add: transform_launch_templates_def sample_template_9_def sample_version_full_def
        sample_version_bare_def subscript_def py_in_def timestamp_str_def setitem_def
        sample_int_of_float sample_str_int)

lemma sample_bare_version:
  "transform_version other sample_version_bare = Inl (KeyError ''LaunchTemplateData'')"
  by (simp add: transform_version_def sample_version_bare_def subscript_def timestamp_str_def)

lemma sample_bare_graph:
  "load sample_session_bare schema data region account tag = None"
  by (simp add: sample_session_bare_def sample_session_def)

lemma sample_bare_run:
  "fst (sync_ec2_launch_templates other sample_session_bare [''eu-west-1'', ''us-east-1'']
          account tag parameters) = Inl (KeyError ''LaunchTemplateData'')"
  by (simp add: sync_ec2_launch_templates_def sync_region_def sample_bare_fetch
        sample_bare_templates load_launch_templates_def sample_bare_graph
        sample_full_run sample_bare_version)

theorem missing_launch_template_data_raises_witness:
  "map_of sample_version_bare ''LaunchTemplateData'' = None \<and>
   transform_launch_template_versions no_rendering [sample_version_bare] =
     Inl (KeyError ''LaunchTemplateData'') \<and>
   (\<exists>e. transform_launch_template_versions no_rendering
           [sample_version_full, sample_version_bare] = Inl e) \<and>
   get_launch_template_versions sample_session_bare ''eu-west-1'' [sample_template_9] =
     (Inr [sample_version_full, sample_version_bare],
      [DescribeLaunchTemplateVersions ''eu-west-1'' (PStr ''lt-9'')]) \<and>
   fst (sync_ec2_launch_templates no_rendering sample_session_bare
          [''eu-west-1'', ''us-east-1''] ''123456789012'' 1700000000 []) =
     Inl (KeyError ''LaunchTemplateData'') \<and>
   filter is_cleanup_event
     (snd (sync_ec2_launch_templates no_rendering sample_session_bare
             [''eu-west-1'', ''us-east-1''] ''123456789012'' 1700000000 [])) = []"
proof -
  have bare: "map_of sample_version_bare ''LaunchTemplateData'' = None"
    "map_of sample_version_bare ''LaunchTemplateId'' \<noteq> None"
    "map_of sample_version_bare ''VersionNumber'' \<noteq> None"
    "map_of sample_version_bare ''CreateTime'' = Some (PDatetime (3400000001 / 2))"
    by (simp_all add: sample_version_bare_def)
  from bare(4) have dt: "\<exists>q. map_of sample_version_bare ''CreateTime'' = Some (PDatetime q)"
    by (rule exI)
  have no_dict: "\<forall>d. map_of sample_version_bare ''LaunchTemplateData'' \<noteq> Some (PDict d)"
    unfolding bare(1) by simp
  have member: "sample_version_bare \<in> set [sample_version_full, sample_version_bare]"
    "''eu-west-1'' \<in> set [''eu-west-1'', ''us-east-1'']"
    by simp_all
  note inst = missing_launch_template_data_raises
         [of sample_version_bare "[sample_version_full, sample_version_bare]" no_rendering
             "''eu-west-1''" "[''eu-west-1'', ''us-east-1'']" sample_session_bare
             "[sample_template_9]" "[DescribeLaunchTemplates ''eu-west-1'']"
             "[DescribeLaunchTemplateVersions ''eu-west-1'' (PStr ''lt-9'')]"
             "''123456789012''" 1700000000 "[]"]
  from inst bare(1-3) dt
  have single: "transform_launch_template_versions no_rendering [sample_version_bare] =
     Inl (KeyError ''LaunchTemplateData'')"
    by blast
  from inst no_dict member(1)
  have among: "\<exists>e. transform_launch_template_versions no_rendering
           [sample_version_full, sample_version_bare] = Inl e"
    by blast
  from inst no_dict member sample_bare_fetch [of "''eu-west-1''"]
  obtain e evs
    where run: "sync_ec2_launch_templates no_rendering sample_session_bare
             [''eu-west-1'', ''us-east-1''] ''123456789012'' 1700000000 [] = (Inl e, evs)"
      and quiet: "filter is_cleanup_event evs = []"
    by blast
  from run quiet have "filter is_cleanup_event
     (snd (sync_ec2_launch_templates no_rendering sample_session_bare
             [''eu-west-1'', ''us-east-1''] ''123456789012'' 1700000000 [])) = []"
    by simp
  with bare(1) single among sample_bare_fetch(2) [of "''eu-west-1''"]
    sample_bare_run [of no_rendering "''123456789012''" 1700000000 "[]"]
  show ?thesis by (intro conjI)
qed

end
